theory Spec2Isabelle
  imports Main "HOL-Library.Word"
begin

unbundle bit_operations_syntax

section \<open>Strings and characters as the Python code uses them\<close>

text \<open>
  Python strings are modelled as \<open>string\<close> (lists of characters). The helpers below are
  the string methods and the regular-expression character classes the modelled functions use.
\<close>

definition is_hex :: "char \<Rightarrow> bool" where
  \<comment> \<open>the character class \<open>[0-9A-Fa-f]\<close>\<close>
  "is_hex c = (c \<in> set ''0123456789ABCDEFabcdef'')"

definition is_sep :: "char \<Rightarrow> bool" where
  \<comment> \<open>the character class \<open>[:-]\<close>\<close>
  "is_sep c = (c = CHR '':'' \<or> c = CHR ''-'')"

definition upper_char :: "char \<Rightarrow> char" where
  \<comment> \<open>\<open>str.upper\<close> on one ASCII character\<close>
  "upper_char c =
     (case map_of (zip ''abcdefghijklmnopqrstuvwxyz'' ''ABCDEFGHIJKLMNOPQRSTUVWXYZ'') c of
        Some u \<Rightarrow> u
      | None \<Rightarrow> c)"

definition str_upper :: "string \<Rightarrow> string" where
  "str_upper s = map upper_char s"

fun join :: "string \<Rightarrow> string list \<Rightarrow> string" where
  \<comment> \<open>\<open>sep.join(parts)\<close>\<close>
  "join sep [] = []"
| "join sep [x] = x"
| "join sep (x # y # ys) = x @ sep @ join sep (y # ys)"

definition slice2 :: "string \<Rightarrow> nat \<Rightarrow> string" where
  \<comment> \<open>\<open>s[i:i+2]\<close>\<close>
  "slice2 s i = take 2 (drop i s)"

section \<open>MAC address syntax (\<open>platforms/windows/network_manager.py\<close>)\<close>

fun re_groups :: "nat \<Rightarrow> string \<Rightarrow> string option" where
  \<comment> \<open>\<open>([0-9A-Fa-f]{2}[:-]){n}\<close> matched at the start; the rest of the string is returned\<close>
  "re_groups 0 s = Some s"
| "re_groups (Suc n) (a # b # c # s) =
     (if is_hex a \<and> is_hex b \<and> is_sep c then re_groups n s else None)"
| "re_groups (Suc n) _ = None"

definition validate_mac_address :: "string \<Rightarrow> bool" where
  \<comment> \<open>\<open>re.match(r'^([0-9A-Fa-f]{2}[:-]){5}([0-9A-Fa-f]{2})$', mac)\<close>; \<open>$\<close> also matches
      just before one final newline\<close>
  "validate_mac_address mac =
     (case re_groups 5 mac of
        None \<Rightarrow> False
      | Some rest \<Rightarrow>
          (case rest of
             [a, b] \<Rightarrow> is_hex a \<and> is_hex b
           | [a, b, nl] \<Rightarrow> is_hex a \<and> is_hex b \<and> nl = CHR 0x0A
           | _ \<Rightarrow> False))"

definition normalize_mac_address :: "string \<Rightarrow> string" where
  \<comment> \<open>\<open>NetworkManager._normalize_mac_address\<close>\<close>
  "normalize_mac_address mac =
     (if mac = [] then []
      else
        let clean_mac = filter is_hex mac in
        if length clean_mac \<noteq> 12 then mac
        else join '':'' (map (\<lambda>i. str_upper (slice2 clean_mac i)) [0, 2, 4, 6, 8, 10]))"

definition canonical_char :: "char \<Rightarrow> char" where
  \<comment> \<open>what the canonical form holds at a position: a colon for a delimiter, the
      upper-case digit for a hexadecimal digit\<close>
  "canonical_char c = (if is_sep c then CHR '':'' else upper_char c)"

definition canonical_alphabet :: "char set" where
  \<comment> \<open>the characters of the canonical form: upper-case hexadecimal digits and the colon\<close>
  "canonical_alphabet = set ''0123456789ABCDEF:''"

section \<open>Platforms and exceptions\<close>

datatype platform = Windows | MacOS

text \<open>
  The exception classes that the modelled functions raise or catch. The classes of
  \<open>core/exceptions.py\<close> come first; the rest are Python built-ins. Messages are left out.
\<close>

datatype exc =
    PermissionError | OperationError | NetworkAdapterError | BackupError
  | KeyError | JSONDecodeError | ValueError | TypeError | AttributeError

section \<open>Random MAC generation (\<open>generate_random_mac\<close> of both network managers)\<close>

definition hex_digit_upper :: "nat \<Rightarrow> char" where
  "hex_digit_upper n = ''0123456789ABCDEF'' ! n"

definition hex_digit_lower :: "nat \<Rightarrow> char" where
  "hex_digit_lower n = ''0123456789abcdef'' ! n"

definition format_02X :: "8 word \<Rightarrow> string" where
  \<comment> \<open>\<open>f'{b:02X}'\<close> for a byte\<close>
  "format_02X b = [hex_digit_upper (unat b div 16), hex_digit_upper (unat b mod 16)]"

definition format_02x :: "8 word \<Rightarrow> string" where
  \<comment> \<open>\<open>f'{b:02x}'\<close> for a byte\<close>
  "format_02x b = [hex_digit_lower (unat b div 16), hex_digit_lower (unat b mod 16)]"

definition format_suffix_byte :: "platform \<Rightarrow> 8 word \<Rightarrow> string" where
  \<comment> \<open>the suffix bytes are printed in upper case on Windows and in lower case on macOS\<close>
  "format_suffix_byte p b = (case p of Windows \<Rightarrow> format_02X b | MacOS \<Rightarrow> format_02x b)"

definition str_remove :: "char \<Rightarrow> string \<Rightarrow> string" where
  \<comment> \<open>\<open>s.replace(c, '')\<close> for a single character\<close>
  "str_remove c s = filter (\<lambda>x. x \<noteq> c) s"

definition format_mac_hex :: "string \<Rightarrow> string" where
  \<comment> \<open>\<open>':'.join([mac_hex[i:i+2] for i in range(0, 12, 2)])\<close>\<close>
  "format_mac_hex mac_hex = join '':'' (map (slice2 mac_hex) [0, 2, 4, 6, 8, 10])"

text \<open>
  \<open>random.randint(0, 255)\<close> returns a byte; \<open>rnd i\<close> is the value of the \<open>i\<close>-th call
  made during one run of the function.
\<close>

definition generate_random_mac :: "platform \<Rightarrow> string option \<Rightarrow> (nat \<Rightarrow> 8 word) \<Rightarrow> exc + string" where
  "generate_random_mac p vendor_prefix rnd =
     (case vendor_prefix of
        Some (v # vs) \<Rightarrow>
          let prefix = take 6 (str_remove CHR ''-'' (str_remove CHR '':'' (v # vs))) in
          if length prefix \<noteq> 6 then Inl NetworkAdapterError
          else
            let suffix = concat (map (\<lambda>i. format_suffix_byte p (rnd i)) [0, 1, 2]);
                mac_hex = prefix @ suffix
            in Inr (format_mac_hex mac_hex)
      | _ \<Rightarrow>
          let first_byte = (rnd 0 OR 0x02) AND 0xFE;
              mac_bytes = first_byte # map rnd [1, 2, 3, 4, 5];
              mac_hex = concat (map format_02X mac_bytes)
          in Inr (format_mac_hex mac_hex))"

definition hex_value :: "char \<Rightarrow> nat option" where
  "hex_value c =
     map_of (zip ''0123456789ABCDEFabcdef''
                 [0, 1, 2, 3, 4, 5, 6, 7, 8, 9, 10, 11, 12, 13, 14, 15, 10, 11, 12, 13, 14, 15]) c"

definition first_octet :: "string \<Rightarrow> nat option" where
  \<comment> \<open>the value of the first two characters of a MAC string read as a hexadecimal octet\<close>
  "first_octet mac =
     (case mac of
        a # b # _ \<Rightarrow>
          (case (hex_value a, hex_value b) of
             (Some h, Some l) \<Rightarrow> Some (16 * h + l)
           | _ \<Rightarrow> None)
      | _ \<Rightarrow> None)"

definition unicast_local :: "string \<Rightarrow> bool" where
  \<comment> \<open>the first octet has its lowest bit 0 (unicast) and its second-lowest bit 1
      (locally administered)\<close>
  "unicast_local mac =
     (case first_octet mac of
        Some n \<Rightarrow> \<not> bit n 0 \<and> bit n 1
      | None \<Rightarrow> False)"

definition const_rnd :: "8 word \<Rightarrow> nat \<Rightarrow> 8 word" where
  \<comment> \<open>a random source that returns the same byte at every call\<close>
  "const_rnd b i = b"

section \<open>Data model (\<open>core/interfaces.py\<close>)\<close>

datatype risk = Low | Medium | High | Critical

fun risk_rank :: "risk \<Rightarrow> nat" where
  \<comment> \<open>the order low < medium < high < critical\<close>
  "risk_rank Low = 0"
| "risk_rank Medium = 1"
| "risk_rank High = 2"
| "risk_rank Critical = 3"

definition risk_le :: "risk \<Rightarrow> risk \<Rightarrow> bool" where
  "risk_le a b = (risk_rank a \<le> risk_rank b)"

datatype adapter_type = ETHERNET | WIRELESS | VIRTUAL | BLUETOOTH | OTHER

record network_adapter =
  adapter_id :: string
  name :: string
  description :: string
  mac_address :: string
  status :: string
  adapter_type :: adapter_type
  can_modify :: bool
  registry_path :: "string option"
  interface_name :: "string option"

section \<open>Validation of a change-set (\<open>validate_fingerprint_changes\<close>)\<close>

text \<open>
  The change-set is a dictionary; a key that is absent is \<open>None\<close>. The MAC changes are the
  items of the inner dictionary in iteration order.
\<close>

record changes =
  mac_changes :: "(string \<times> string) list option"
  machine_guid :: "string option"
  hardware_uuid :: "string option"
  volume_serial_changes :: "(string \<times> string) list option"

text \<open>The messages appended to the error and warning lists, with the value they mention.\<close>

datatype message =
    AdapterNotFound string
  | AdapterNotModifiable string
  | InvalidMacFormat string
  | MacChangeWarning string
  | GuidChangeWarning
  | InvalidGuidFormat string
  | VolumeSerialNotImplemented
  | HardwareUuidNotSupported
  | VolumeSerialNotSupported
  | SudoRequired
  | ValidationFailed exc

record validation_result =
  valid :: bool
  warnings :: "message list"
  errors :: "message list"
  risk_level :: risk

text \<open>
  What a fingerprint manager meets on the machine: the adapter lookup of its network
  manager (\<open>get_adapter_by_id\<close> returns \<open>None\<close> on every failure), the library constructor
  \<open>uuid.UUID\<close> (\<open>None\<close> when it accepts the string, the exception it raises otherwise), the
  two checks of the permission manager, and the outcomes of the calls it delegates to: the
  network manager's \<open>modify_mac_address\<close> and \<open>restore_original_mac\<close>, the WMI manager's
  \<open>modify_machine_guid\<close> (these perform the native writes), and the writing of the
  fingerprint backup file. An outcome is the returned value or the exception raised.
\<close>

record env =
  get_adapter_by_id :: "string \<Rightarrow> network_adapter option"
  uuid_UUID :: "string \<Rightarrow> exc option"
  check_admin_privileges :: bool
  validate_permissions_for_operation :: "string \<Rightarrow> bool"
  nm_modify_mac_address :: "string \<Rightarrow> string \<Rightarrow> exc + bool"
  nm_restore_original_mac :: "string \<Rightarrow> exc + bool"
  wmi_modify_machine_guid :: "string option \<Rightarrow> exc + bool"
  backup_current_fingerprint :: "exc + string"

definition initial_result :: validation_result where
  "initial_result = \<lparr>valid = True, warnings = [], errors = [], risk_level = Low\<rparr>"

definition add_error :: "message \<Rightarrow> validation_result \<Rightarrow> validation_result" where
  \<comment> \<open>\<open>errors.append(m); valid = False\<close>\<close>
  "add_error m vr = vr\<lparr>errors := errors vr @ [m], valid := False\<rparr>"

definition add_warning :: "message \<Rightarrow> validation_result \<Rightarrow> validation_result" where
  "add_warning m vr = vr\<lparr>warnings := warnings vr @ [m]\<rparr>"

definition mac_rule_step :: "env \<Rightarrow> validation_result \<Rightarrow> string \<times> string \<Rightarrow> validation_result" where
  \<comment> \<open>one iteration of the loop over \<open>changes['mac_changes'].items()\<close>, the same on both platforms\<close>
  "mac_rule_step e vr item =
     (case item of (aid, new_mac) \<Rightarrow>
        (case get_adapter_by_id e aid of
           None \<Rightarrow> add_error (AdapterNotFound aid) vr
         | Some adapter \<Rightarrow>
             if \<not> can_modify adapter then add_error (AdapterNotModifiable (name adapter)) vr
             else if \<not> validate_mac_address new_mac then add_error (InvalidMacFormat new_mac) vr
             else
               let vr' = add_warning (MacChangeWarning (name adapter)) vr in
               if risk_level vr' = Low then vr'\<lparr>risk_level := Medium\<rparr> else vr'))"

definition mac_rule :: "env \<Rightarrow> changes \<Rightarrow> validation_result \<Rightarrow> validation_result" where
  "mac_rule e ch vr =
     (case mac_changes ch of
        None \<Rightarrow> vr
      | Some items \<Rightarrow> foldl (mac_rule_step e) vr items)"

definition guid_rule_windows :: "env \<Rightarrow> changes \<Rightarrow> validation_result \<Rightarrow> exc + validation_result" where
  \<comment> \<open>only \<open>ValueError\<close> is caught next to the constructor; any other exception leaves the rule\<close>
  "guid_rule_windows e ch vr =
     (case machine_guid ch of
        None \<Rightarrow> Inr vr
      | Some g \<Rightarrow>
          (case uuid_UUID e g of
             None \<Rightarrow> Inr ((add_warning GuidChangeWarning vr)\<lparr>risk_level := High\<rparr>)
           | Some ValueError \<Rightarrow> Inr (add_error (InvalidGuidFormat g) vr)
           | Some x \<Rightarrow> Inl x))"

definition volume_rule_windows :: "changes \<Rightarrow> validation_result \<Rightarrow> validation_result" where
  "volume_rule_windows ch vr =
     (case volume_serial_changes ch of
        None \<Rightarrow> vr
      | Some _ \<Rightarrow> (add_error VolumeSerialNotImplemented vr)\<lparr>risk_level := Critical\<rparr>)"

definition hardware_uuid_rule_macos :: "changes \<Rightarrow> validation_result \<Rightarrow> validation_result" where
  "hardware_uuid_rule_macos ch vr =
     (case hardware_uuid ch of
        None \<Rightarrow> vr
      | Some _ \<Rightarrow> (add_error HardwareUuidNotSupported vr)\<lparr>risk_level := Critical\<rparr>)"

definition volume_rule_macos :: "changes \<Rightarrow> validation_result \<Rightarrow> validation_result" where
  "volume_rule_macos ch vr =
     (case volume_serial_changes ch of
        None \<Rightarrow> vr
      | Some _ \<Rightarrow> (add_error VolumeSerialNotSupported vr)\<lparr>risk_level := Critical\<rparr>)"

definition permission_rule_macos :: "env \<Rightarrow> changes \<Rightarrow> validation_result \<Rightarrow> validation_result" where
  \<comment> \<open>\<open>if 'mac_changes' in changes and changes['mac_changes']\<close>: present and not empty\<close>
  "permission_rule_macos e ch vr =
     (case mac_changes ch of
        Some (x # xs) \<Rightarrow>
          if \<not> validate_permissions_for_operation e ''modify_mac_address''
          then add_error SudoRequired vr else vr
      | _ \<Rightarrow> vr)"

definition failed_validation :: "exc \<Rightarrow> validation_result" where
  \<comment> \<open>the result built by the outer \<open>except Exception\<close> handler\<close>
  "failed_validation x =
     \<lparr>valid = False, warnings = [], errors = [ValidationFailed x], risk_level = Critical\<rparr>"

definition validate_windows :: "env \<Rightarrow> changes \<Rightarrow> validation_result" where
  \<comment> \<open>\<open>WindowsFingerprintManager.validate_fingerprint_changes\<close>\<close>
  "validate_windows e ch =
     (case guid_rule_windows e ch (mac_rule e ch initial_result) of
        Inl x \<Rightarrow> failed_validation x
      | Inr vr \<Rightarrow> volume_rule_windows ch vr)"

definition validate_macos :: "env \<Rightarrow> changes \<Rightarrow> validation_result" where
  \<comment> \<open>\<open>MacOSFingerprintManager.validate_fingerprint_changes\<close>\<close>
  "validate_macos e ch =
     permission_rule_macos e ch
       (volume_rule_macos ch (hardware_uuid_rule_macos ch (mac_rule e ch initial_result)))"

definition validate_fingerprint_changes :: "platform \<Rightarrow> env \<Rightarrow> changes \<Rightarrow> validation_result" where
  "validate_fingerprint_changes p e ch =
     (case p of Windows \<Rightarrow> validate_windows e ch | MacOS \<Rightarrow> validate_macos e ch)"

text \<open>
  The successive values of the result while a change-set is validated: the initial value,
  the value after each iteration of the MAC loop, and the value after each later rule.
\<close>

fun mac_rule_states :: "env \<Rightarrow> validation_result \<Rightarrow> (string \<times> string) list \<Rightarrow> validation_result list" where
  "mac_rule_states e vr [] = [vr]"
| "mac_rule_states e vr (item # items) = vr # mac_rule_states e (mac_rule_step e vr item) items"

definition validation_states :: "platform \<Rightarrow> env \<Rightarrow> changes \<Rightarrow> validation_result list" where
  "validation_states p e ch =
     (let macs = mac_rule_states e initial_result (case mac_changes ch of None \<Rightarrow> [] | Some items \<Rightarrow> items);
          r1 = last macs
      in case p of
           Windows \<Rightarrow>
             (case guid_rule_windows e ch r1 of
                Inl x \<Rightarrow> macs @ [failed_validation x]
              | Inr r2 \<Rightarrow> macs @ [r2, volume_rule_windows ch r2])
         | MacOS \<Rightarrow>
             (let r2 = hardware_uuid_rule_macos ch r1;
                  r3 = volume_rule_macos ch r2
              in macs @ [r2, r3, permission_rule_macos e ch r3]))"

text \<open>Sample inputs: one modifiable adapter \<open>en0\<close>, and a library constructor that accepts
  32 hexadecimal digits with optional hyphens and raises \<open>ValueError\<close> otherwise.\<close>

definition sample_adapter :: network_adapter where
  "sample_adapter =
     \<lparr>adapter_id = ''en0'', name = ''Ethernet'', description = ''Network Interface en0'',
      mac_address = ''a4:83:e7:12:34:56'', status = ''active'', adapter_type = ETHERNET,
      can_modify = True, registry_path = None, interface_name = Some ''en0''\<rparr>"

definition sample_uuid_UUID :: "string \<Rightarrow> exc option" where
  "sample_uuid_UUID s =
     (let h = str_remove CHR ''-'' s
      in if length h = 32 \<and> list_all is_hex h then None else Some ValueError)"

definition sample_env :: "bool \<Rightarrow> env" where
  \<comment> \<open>the argument says whether the process holds the privilege\<close>
  "sample_env privileged =
     \<lparr>get_adapter_by_id = (\<lambda>i. if i = ''en0'' then Some sample_adapter else None),
      uuid_UUID = sample_uuid_UUID,
      check_admin_privileges = privileged,
      validate_permissions_for_operation = (\<lambda>_. privileged),
      nm_modify_mac_address = (\<lambda>_ _. Inr True),
      nm_restore_original_mac = (\<lambda>_. Inr True),
      wmi_modify_machine_guid = (\<lambda>_. Inr True),
      backup_current_fingerprint = Inr ''fingerprint_20240101T120000''\<rparr>"

definition no_changes :: changes where
  "no_changes = \<lparr>mac_changes = None, machine_guid = None, hardware_uuid = None,
                  volume_serial_changes = None\<rparr>"

definition identity_change :: "platform \<Rightarrow> string \<Rightarrow> changes" where
  \<comment> \<open>the change-set that holds only a machine-identity change: the key is
      \<open>machine_guid\<close> on Windows and \<open>hardware_uuid\<close> on macOS\<close>
  "identity_change p g =
     (case p of
        Windows \<Rightarrow> no_changes\<lparr>machine_guid := Some g\<rparr>
      | MacOS \<Rightarrow> no_changes\<lparr>hardware_uuid := Some g\<rparr>)"

definition sample_changes :: changes where
  \<comment> \<open>a MAC change for the known adapter, one for an unknown adapter, an identifier the
      constructor rejects, and a volume-serial change\<close>
  "sample_changes =
     \<lparr>mac_changes = Some [(''en0'', ''00:11:22:33:44:55''), (''en7'', ''00:11:22:33:44:55'')],
      machine_guid = Some ''test-guid'', hardware_uuid = None,
      volume_serial_changes = Some [(''C:'', ''1234-ABCD'')]\<rparr>"

section \<open>Mutating calls of the fingerprint managers\<close>

text \<open>
  A call returns its result together with the events it caused, in order: the permission
  checks it made and the delegated calls it reached.
\<close>

datatype event =
    Validated
  | CheckAdmin
  | CheckPermission string
  | BackupFingerprint
  | NetworkManagerModifyMac string string
  | NetworkManagerRestoreMac string
  | WmiModifyGuid "string option"

fun is_native :: "event \<Rightarrow> bool" where
  \<comment> \<open>the delegated calls that write to the system\<close>
  "is_native (NetworkManagerModifyMac _ _) = True"
| "is_native (NetworkManagerRestoreMac _) = True"
| "is_native (WmiModifyGuid _) = True"
| "is_native _ = False"

fun is_check :: "event \<Rightarrow> bool" where
  "is_check CheckAdmin = True"
| "is_check (CheckPermission _) = True"
| "is_check _ = False"

definition wrap_OperationError :: "exc + 'a \<Rightarrow> exc + 'a" where
  \<comment> \<open>\<open>except Exception as e: raise OperationError(...)\<close> around a method body\<close>
  "wrap_OperationError r = (case r of Inl _ \<Rightarrow> Inl OperationError | Inr v \<Rightarrow> Inr v)"

datatype operation =
    ModifyMac string string
  | RestoreMac string
  | ModifyGuid "string option"
  | ModifyVolume string string

fun windows_call :: "env \<Rightarrow> operation \<Rightarrow> (exc + bool) \<times> event list" where
  \<comment> \<open>the four mutating methods of \<open>WindowsFingerprintManager\<close>\<close>
  "windows_call e (ModifyMac aid new_mac) =
     (if \<not> check_admin_privileges e then (Inl OperationError, [CheckAdmin])
      else if \<not> validate_permissions_for_operation e ''modify_mac_address''
      then (Inl OperationError, [CheckAdmin, CheckPermission ''modify_mac_address''])
      else (wrap_OperationError (nm_modify_mac_address e aid new_mac),
            [CheckAdmin, CheckPermission ''modify_mac_address'',
             NetworkManagerModifyMac aid new_mac]))"
| "windows_call e (RestoreMac aid) =
     (if \<not> check_admin_privileges e then (Inl OperationError, [CheckAdmin])
      else (wrap_OperationError (nm_restore_original_mac e aid),
            [CheckAdmin, NetworkManagerRestoreMac aid]))"
| "windows_call e (ModifyGuid new_guid) =
     (if \<not> check_admin_privileges e then (Inl OperationError, [CheckAdmin])
      else if \<not> validate_permissions_for_operation e ''modify_machine_guid''
      then (Inl OperationError, [CheckAdmin, CheckPermission ''modify_machine_guid''])
      else (wrap_OperationError (wmi_modify_machine_guid e new_guid),
            [CheckAdmin, CheckPermission ''modify_machine_guid'', WmiModifyGuid new_guid]))"
| "windows_call e (ModifyVolume drive new_serial) =
     (if \<not> check_admin_privileges e then (Inl OperationError, [CheckAdmin])
      else if \<not> validate_permissions_for_operation e ''modify_volume_serial''
      then (Inl OperationError, [CheckAdmin, CheckPermission ''modify_volume_serial''])
      else (Inr False, [CheckAdmin, CheckPermission ''modify_volume_serial'']))"

fun macos_call :: "env \<Rightarrow> operation \<Rightarrow> (exc + bool) \<times> event list" where
  \<comment> \<open>the four mutating methods of \<open>MacOSFingerprintManager\<close>; the last two raise at once\<close>
  "macos_call e (ModifyMac aid new_mac) =
     (if \<not> validate_permissions_for_operation e ''modify_mac_address''
      then (Inl OperationError, [CheckPermission ''modify_mac_address''])
      else (wrap_OperationError (nm_modify_mac_address e aid new_mac),
            [CheckPermission ''modify_mac_address'', NetworkManagerModifyMac aid new_mac]))"
| "macos_call e (RestoreMac aid) =
     (if \<not> validate_permissions_for_operation e ''modify_mac_address''
      then (Inl OperationError, [CheckPermission ''modify_mac_address''])
      else (wrap_OperationError (nm_restore_original_mac e aid),
            [CheckPermission ''modify_mac_address'', NetworkManagerRestoreMac aid]))"
| "macos_call e (ModifyGuid new_guid) = (Inl OperationError, [])"
| "macos_call e (ModifyVolume drive new_serial) = (Inl OperationError, [])"

definition engine_call :: "platform \<Rightarrow> env \<Rightarrow> operation \<Rightarrow> (exc + bool) \<times> event list" where
  "engine_call p e op = (case p of Windows \<Rightarrow> windows_call e op | MacOS \<Rightarrow> macos_call e op)"

definition privilege_absent :: "platform \<Rightarrow> env \<Rightarrow> bool" where
  \<comment> \<open>the process is not elevated (Windows) or has neither sudo nor root (macOS)\<close>
  "privilege_absent p e =
     (case p of
        Windows \<Rightarrow> \<not> check_admin_privileges e
      | MacOS \<Rightarrow> \<not> validate_permissions_for_operation e ''modify_mac_address'')"

section \<open>Applying a change-set (\<open>apply_fingerprint_changes\<close>)\<close>

fun dict_set :: "string \<Rightarrow> bool \<Rightarrow> (string \<times> bool) list \<Rightarrow> (string \<times> bool) list" where
  \<comment> \<open>\<open>results[k] = v\<close> on a dictionary kept in insertion order\<close>
  "dict_set k v [] = [(k, v)]"
| "dict_set k v ((k', v') # d) = (if k = k' then (k, v) # d else (k', v') # dict_set k v d)"

definition success_of :: "exc + bool \<Rightarrow> bool" where
  \<comment> \<open>\<open>try: success = call() except Exception: success = False\<close>\<close>
  "success_of r = (case r of Inl _ \<Rightarrow> False | Inr b \<Rightarrow> b)"

fun apply_mac_changes ::
  "platform \<Rightarrow> env \<Rightarrow> (string \<times> string) list \<Rightarrow> (string \<times> bool) list \<times> event list
     \<Rightarrow> (string \<times> bool) list \<times> event list" where
  \<comment> \<open>the loop over \<open>changes['mac_changes'].items()\<close>\<close>
  "apply_mac_changes p e [] acc = acc"
| "apply_mac_changes p e ((aid, new_mac) # items) (results, evs) =
     (let (r, evs') = engine_call p e (ModifyMac aid new_mac)
      in apply_mac_changes p e items
           (dict_set (''mac_'' @ aid) (success_of r) results, evs @ evs'))"

definition apply_after_backup ::
  "platform \<Rightarrow> env \<Rightarrow> changes \<Rightarrow> (string \<times> bool) list \<times> event list" where
  \<comment> \<open>what follows the backup: the MAC changes, then the platform's other entries\<close>
  "apply_after_backup p e ch =
     (let (results, evs) =
            (case mac_changes ch of
               None \<Rightarrow> ([], [])
             | Some items \<Rightarrow> apply_mac_changes p e items ([], []))
      in case p of
           Windows \<Rightarrow>
             (case machine_guid ch of
                None \<Rightarrow> (results, evs)
              | Some g \<Rightarrow>
                  (let (r, evs') = engine_call Windows e (ModifyGuid (Some g))
                   in (dict_set ''machine_guid'' (success_of r) results, evs @ evs')))
         | MacOS \<Rightarrow>
             (let results' =
                    (if hardware_uuid ch \<noteq> None then dict_set ''hardware_uuid'' False results
                     else results);
                  results'' =
                    (if volume_serial_changes ch \<noteq> None
                     then dict_set ''volume_serial'' False results' else results')
              in (results'', evs)))"

definition apply_fingerprint_changes ::
  "platform \<Rightarrow> env \<Rightarrow> changes \<Rightarrow> (exc + (string \<times> bool) list) \<times> event list" where
  "apply_fingerprint_changes p e ch =
     (if \<not> valid (validate_fingerprint_changes p e ch) then (Inl OperationError, [Validated])
      else
        (case backup_current_fingerprint e of
           Inl x \<Rightarrow> (Inl OperationError, [Validated, BackupFingerprint])
         | Inr backup_id \<Rightarrow>
             (let (results, evs) = apply_after_backup p e ch
              in (Inr results, Validated # BackupFingerprint # evs))))"

definition sample_apply_changes :: changes where
  \<comment> \<open>a MAC change for the known adapter and an identifier the constructor accepts\<close>
  "sample_apply_changes =
     \<lparr>mac_changes = Some [(''en0'', ''00:11:22:33:44:55'')],
      machine_guid = Some ''12345678-1234-1234-1234-123456789abc'', hardware_uuid = None,
      volume_serial_changes = None\<rparr>"

definition sample_env_backup_fails :: env where
  \<comment> \<open>a privileged process on a machine where the backup file cannot be written\<close>
  "sample_env_backup_fails = (sample_env True)\<lparr>backup_current_fingerprint := Inl OperationError\<rparr>"

section \<open>JSON values\<close>

text \<open>
  What \<open>json.load\<close> and \<open>json.loads\<close> return. An object keeps its members in the order of
  the text; a key that occurs twice has the value of its last occurrence, as in the
  dictionary Python builds.
\<close>

datatype json =
    JNull
  | JBool bool
  | JNum int
  | JStr string
  | JArr "json list"
  | JObj "(string \<times> json) list"

definition obj_get :: "(string \<times> json) list \<Rightarrow> string \<Rightarrow> json option" where
  "obj_get members k = map_of (rev members) k"

section \<open>Registry backups (\<open>platforms/windows/registry_manager.py\<close>)\<close>



record backup_summary =
  backup_id :: json
  timestamp :: json
  registry_path :: json
  value_count :: nat
  file_size :: nat











section \<open>Adapter discovery on macOS (\<open>platforms/macos/network_manager.py\<close>)\<close>

text \<open>
  More string methods. Characters are ASCII: \<open>str.lower\<close>, \<open>str.strip\<close> and the class
  \<open>\w\<close> act on the ASCII letters, digits and white space only.
\<close>

definition lower_char :: "char \<Rightarrow> char" where
  "lower_char c =
     (case map_of (zip ''ABCDEFGHIJKLMNOPQRSTUVWXYZ'' ''abcdefghijklmnopqrstuvwxyz'') c of
        Some l \<Rightarrow> l
      | None \<Rightarrow> c)"

definition str_lower :: "string \<Rightarrow> string" where
  "str_lower s = map lower_char s"

definition startswith :: "string \<Rightarrow> string \<Rightarrow> bool" where
  "startswith s p = (take (length p) s = p)"

fun contains :: "string \<Rightarrow> string \<Rightarrow> bool" where
  \<comment> \<open>\<open>sub in s\<close>\<close>
  "contains [] sub = (sub = [])"
| "contains (c # cs) sub = (startswith (c # cs) sub \<or> contains cs sub)"

fun split_on :: "char \<Rightarrow> string \<Rightarrow> string list" where
  \<comment> \<open>\<open>s.split(c)\<close>\<close>
  "split_on c [] = [[]]"
| "split_on c (x # xs) =
     (if x = c then [] # split_on c xs
      else (case split_on c xs of
              h # t \<Rightarrow> (x # h) # t
            | [] \<Rightarrow> [[x]]))"

definition is_space :: "char \<Rightarrow> bool" where
  \<comment> \<open>the ASCII characters for which \<open>str.isspace\<close> holds\<close>
  "is_space c =
     (let n = (of_char c :: nat) in (9 \<le> n \<and> n \<le> 13) \<or> (28 \<le> n \<and> n \<le> 32))"

definition strip :: "string \<Rightarrow> string" where
  "strip s = rev (dropWhile is_space (rev (dropWhile is_space s)))"

definition before_colon :: "string \<Rightarrow> string" where
  \<comment> \<open>\<open>line.split(':')[0]\<close>\<close>
  "before_colon line = takeWhile (\<lambda>c. c \<noteq> CHR '':'') line"

definition after_colon :: "string \<Rightarrow> string" where
  \<comment> \<open>\<open>line.split(':', 1)[1]\<close>, used on lines that start with a key and a colon\<close>
  "after_colon line = drop 1 (dropWhile (\<lambda>c. c \<noteq> CHR '':'') line)"

definition is_mac_char :: "char \<Rightarrow> bool" where
  \<comment> \<open>the character class \<open>[a-fA-F0-9:]\<close>\<close>
  "is_mac_char c = (is_hex c \<or> c = CHR '':'')"

definition is_word_char :: "char \<Rightarrow> bool" where
  \<comment> \<open>the character class \<open>\w\<close>\<close>
  "is_word_char c =
     (c \<in> set ''abcdefghijklmnopqrstuvwxyzABCDEFGHIJKLMNOPQRSTUVWXYZ0123456789_'')"

fun re_search_ether :: "string \<Rightarrow> string option" where
  \<comment> \<open>group 1 of \<open>re.search(r'ether ([a-fA-F0-9:]{17})', line)\<close>\<close>
  "re_search_ether [] = None"
| "re_search_ether (c # cs) =
     (let g = take 17 (drop 6 (c # cs))
      in if startswith (c # cs) ''ether '' \<and> length g = 17 \<and> list_all is_mac_char g
         then Some g else re_search_ether cs)"

fun re_search_status :: "string \<Rightarrow> string option" where
  \<comment> \<open>group 1 of \<open>re.search(r'status: (\w+)', line)\<close>\<close>
  "re_search_status [] = None"
| "re_search_status (c # cs) =
     (let g = takeWhile is_word_char (drop 8 (c # cs))
      in if startswith (c # cs) ''status: '' \<and> g \<noteq> []
         then Some g else re_search_status cs)"

text \<open>The outcome of \<open>subprocess.run\<close>: it raised, or it ended with a return code and an
  output text.\<close>

datatype cmd_result = CmdRaised | CmdDone int string

text \<open>
  The dictionary that \<open>_get_ifconfig_adapters\<close> builds for an interface. Its \<open>ip_address\<close>
  entry is left out: the loop sets it, and nothing reads it.
\<close>

record ifconfig_adapter =
  if_interface :: string
  if_mac_address :: "string option"
  if_status :: string
  if_description :: string

definition push_current :: "ifconfig_adapter list \<Rightarrow> ifconfig_adapter option \<Rightarrow> ifconfig_adapter list" where
  \<comment> \<open>\<open>if current_interface: adapters.append(current_interface)\<close>\<close>
  "push_current adapters current =
     (case current of None \<Rightarrow> adapters | Some c \<Rightarrow> adapters @ [c])"

definition ifconfig_line ::
  "ifconfig_adapter list \<times> ifconfig_adapter option \<Rightarrow> string
     \<Rightarrow> ifconfig_adapter list \<times> ifconfig_adapter option" where
  \<comment> \<open>one iteration of the loop over the lines of the output\<close>
  "ifconfig_line st line =
     (case st of (adapters, current) \<Rightarrow>
        if line \<noteq> [] \<and> \<not> startswith line [CHR 0x09] \<and> \<not> startswith line '' '' then
          (let interface_name = before_colon line
           in (push_current adapters current,
               Some \<lparr>if_interface = interface_name, if_mac_address = None,
                     if_status = ''unknown'',
                     if_description = ''Network Interface '' @ interface_name\<rparr>))
        else
          (case current of
             None \<Rightarrow> (adapters, None)
           | Some c \<Rightarrow>
               if contains line ''ether'' then
                 (case re_search_ether line of
                    Some m \<Rightarrow> (adapters, Some (c\<lparr>if_mac_address := Some m\<rparr>))
                  | None \<Rightarrow> (adapters, Some c))
               else if contains line ''status:'' then
                 (case re_search_status line of
                    Some s \<Rightarrow> (adapters, Some (c\<lparr>if_status := s\<rparr>))
                  | None \<Rightarrow> (adapters, Some c))
               else (adapters, Some c)))"

definition has_mac :: "ifconfig_adapter \<Rightarrow> bool" where
  \<comment> \<open>the truth value of \<open>adapter.get('mac_address')\<close>: neither \<open>None\<close> nor empty\<close>
  "has_mac a = (case if_mac_address a of None \<Rightarrow> False | Some m \<Rightarrow> m \<noteq> [])"

definition get_ifconfig_adapters :: "cmd_result \<Rightarrow> ifconfig_adapter list" where
  \<comment> \<open>a failing command raises inside the \<open>try\<close>, and the handler returns the empty list\<close>
  "get_ifconfig_adapters r =
     (case r of
        CmdRaised \<Rightarrow> []
      | CmdDone returncode out \<Rightarrow>
          if returncode \<noteq> 0 then []
          else
            (case foldl ifconfig_line ([], None) (split_on (CHR 0x0A) out) of
               (adapters, current) \<Rightarrow> filter has_mac (push_current adapters current)))"

record ns_adapter =
  ns_name :: "string option"
  ns_device :: "string option"
  ns_mac_address :: "string option"

definition ns_empty :: ns_adapter where
  \<comment> \<open>the empty dictionary\<close>
  "ns_empty = \<lparr>ns_name = None, ns_device = None, ns_mac_address = None\<rparr>"

definition ns_push :: "ns_adapter list \<Rightarrow> ns_adapter \<Rightarrow> ns_adapter list" where
  \<comment> \<open>\<open>if current_adapter: adapters.append(current_adapter)\<close>\<close>
  "ns_push adapters current = (if current = ns_empty then adapters else adapters @ [current])"

definition networksetup_line :: "ns_adapter list \<times> ns_adapter \<Rightarrow> string \<Rightarrow> ns_adapter list \<times> ns_adapter" where
  "networksetup_line st raw =
     (case st of (adapters, current) \<Rightarrow>
        let line = strip raw in
        if startswith line ''Hardware Port:'' then
          (ns_push adapters current, ns_empty\<lparr>ns_name := Some (strip (after_colon line))\<rparr>)
        else if startswith line ''Device:'' then
          (adapters, current\<lparr>ns_device := Some (strip (after_colon line))\<rparr>)
        else if startswith line ''Ethernet Address:'' then
          (adapters, current\<lparr>ns_mac_address := Some (strip (after_colon line))\<rparr>)
        else (adapters, current))"

definition get_networksetup_adapters :: "cmd_result \<Rightarrow> ns_adapter list" where
  "get_networksetup_adapters r =
     (case r of
        CmdRaised \<Rightarrow> []
      | CmdDone returncode out \<Rightarrow>
          if returncode \<noteq> 0 then []
          else
            (case foldl networksetup_line ([], ns_empty) (split_on (CHR 0x0A) out) of
               (adapters, current) \<Rightarrow> ns_push adapters current))"

definition determine_adapter_type_macos :: "string \<Rightarrow> adapter_type" where
  "determine_adapter_type_macos interface =
     (let l = str_lower interface in
      if startswith l ''en'' then ETHERNET
      else if startswith l ''wi'' \<or> startswith l ''wl'' then WIRELESS
      else if startswith l ''bt'' \<or> contains l ''bluetooth'' then BLUETOOTH
      else if contains l ''vmnet'' \<or> contains l ''vnic'' \<or> contains l ''utun'' then VIRTUAL
      else OTHER)"

definition matches_ns :: "ifconfig_adapter \<Rightarrow> ns_adapter \<Rightarrow> bool" where
  \<comment> \<open>the test of the inner loop; \<open>dict.get\<close> of an absent key is \<open>None\<close>\<close>
  "matches_ns a n =
     (Some (if_interface a) = ns_device n \<or> if_mac_address a = ns_mac_address n)"

definition build_adapter :: "ifconfig_adapter \<Rightarrow> ns_adapter \<Rightarrow> network_adapter" where
  \<comment> \<open>the \<open>NetworkAdapter(...)\<close> call; an absent MAC (Python \<open>None\<close>) is written as the
      empty string\<close>
  "build_adapter a info =
     \<lparr>adapter_id = if_interface a,
      name = (case ns_name info of Some n \<Rightarrow> n | None \<Rightarrow> if_interface a),
      description = if_description a,
      mac_address = (case if_mac_address a of Some m \<Rightarrow> m | None \<Rightarrow> []),
      status = if_status a,
      adapter_type = determine_adapter_type_macos (if_interface a),
      can_modify = (if_mac_address a \<noteq> None),
      registry_path = None,
      interface_name = Some (if_interface a)\<rparr>"

fun merge_adapters :: "ns_adapter list \<Rightarrow> ifconfig_adapter list \<Rightarrow> exc + network_adapter list" where
  \<comment> \<open>the merging loop; with no matching entry \<open>networksetup_info\<close> stays \<open>None\<close>, the
      attribute access on it raises, and the method re-raises \<open>NetworkAdapterError\<close>\<close>
  "merge_adapters ns [] = Inr []"
| "merge_adapters ns (a # rest) =
     (case find (matches_ns a) ns of
        None \<Rightarrow> Inl NetworkAdapterError
      | Some info \<Rightarrow>
          (case merge_adapters ns rest of
             Inl x \<Rightarrow> Inl x
           | Inr adapters \<Rightarrow> Inr (build_adapter a info # adapters)))"

definition get_network_adapters_macos :: "cmd_result \<Rightarrow> cmd_result \<Rightarrow> exc + network_adapter list" where
  \<comment> \<open>\<open>MacOSNetworkManager.get_network_adapters\<close>, from the outcomes of \<open>ifconfig\<close> and
      \<open>networksetup -listallhardwareports\<close>\<close>
  "get_network_adapters_macos ifconfig_result networksetup_result =
     merge_adapters (get_networksetup_adapters networksetup_result)
       (get_ifconfig_adapters ifconfig_result)"

text \<open>Sample command outputs: a loopback interface without a MAC and one Wi-Fi interface.\<close>

definition text_lines :: "string list \<Rightarrow> string" where
  "text_lines ls = concat (map (\<lambda>l. l @ [CHR 0x0A]) ls)"

definition sample_ifconfig :: cmd_result where
  "sample_ifconfig = CmdDone 0 (text_lines
     [''lo0: flags=8049<UP,LOOPBACK,RUNNING,MULTICAST> mtu 16384'',
      CHR 0x09 # ''inet 127.0.0.1 netmask 0xff000000'',
      ''en0: flags=8863<UP,BROADCAST,SMART,RUNNING,SIMPLEX,MULTICAST> mtu 1500'',
      CHR 0x09 # ''ether a4:83:e7:12:34:56'',
      CHR 0x09 # ''inet 192.168.1.10 netmask 0xffffff00 broadcast 192.168.1.255'',
      CHR 0x09 # ''status: active''])"

definition sample_networksetup :: cmd_result where
  "sample_networksetup = CmdDone 0 (text_lines
     ['''',
      ''Hardware Port: Wi-Fi'',
      ''Device: en0'',
      ''Ethernet Address: a4:83:e7:12:34:56'',
      ''''])"

definition sample_en0 :: network_adapter where
  "sample_en0 =
     \<lparr>adapter_id = ''en0'', name = ''Wi-Fi'', description = ''Network Interface en0'',
      mac_address = ''a4:83:e7:12:34:56'', status = ''active'', adapter_type = ETHERNET,
      can_modify = True, registry_path = None, interface_name = Some ''en0''\<rparr>"

section \<open>Reading the audit log (\<open>core/logger.py\<close>)\<close>

text \<open>
  The audit file is missing, unreadable (opening or reading it raises), or a list of lines.
  A line is given by what \<open>json.loads(line.strip())\<close> makes of it: \<open>None\<close> when it raises
  \<open>JSONDecodeError\<close>, the parsed value otherwise. A datetime is the number of seconds it
  stands for. Two library calls are parameters: \<open>datetime.fromisoformat\<close> (\<open>None\<close> when it
  raises \<open>ValueError\<close>) and the test \<open>query.lower() in json.dumps(data).lower()\<close>.
\<close>

datatype audit_file = Missing | Unreadable | Lines "json option list"

record log_env =
  fromisoformat :: "string \<Rightarrow> int option"
  dumps_contains :: "string \<Rightarrow> json \<Rightarrow> bool"

record operation_record =
  or_operation_id :: json
  or_timestamp :: int
  or_operation_type :: json
  or_target :: json
  or_parameters :: json
  or_result :: json
  or_backup_id :: json
  or_risk_level :: json
  or_user :: json
  or_duration :: json

text \<open>
  What one line does to the scan: it is skipped (\<open>continue\<close>, also from the inner handler
  of \<open>JSONDecodeError\<close> and \<open>KeyError\<close>), it yields a record, or it raises an exception
  that the inner handler does not catch.
\<close>

datatype line_outcome = Skip | Rec operation_record | Abort exc

definition make_record :: "(string \<times> json) list \<Rightarrow> int \<Rightarrow> line_outcome" where
  \<comment> \<open>the \<open>OperationRecord(...)\<close> call: a missing key raises \<open>KeyError\<close>, except for
      \<open>backup_id\<close>, which is read with \<open>get\<close>\<close>
  "make_record m ts =
     (case (obj_get m ''operation_id'', obj_get m ''operation_type'', obj_get m ''target'',
            obj_get m ''parameters'', obj_get m ''result'', obj_get m ''risk_level'',
            obj_get m ''user'', obj_get m ''duration'') of
        (Some oid, Some ot, Some tg, Some ps, Some rs, Some rl, Some us, Some du) \<Rightarrow>
          Rec \<lparr>or_operation_id = oid, or_timestamp = ts, or_operation_type = ot,
               or_target = tg, or_parameters = ps, or_result = rs,
               or_backup_id = (case obj_get m ''backup_id'' of Some b \<Rightarrow> b | None \<Rightarrow> JNull),
               or_risk_level = rl, or_user = us, or_duration = du\<rparr>
      | _ \<Rightarrow> Skip)"

definition parse_timestamp :: "log_env \<Rightarrow> (string \<times> json) list \<Rightarrow> exc + int option" where
  \<comment> \<open>\<open>datetime.fromisoformat(data['timestamp'])\<close>: \<open>Inr None\<close> for the \<open>KeyError\<close> that is
      caught, \<open>Inl\<close> for the exceptions that are not\<close>
  "parse_timestamp e m =
     (case obj_get m ''timestamp'' of
        None \<Rightarrow> Inr None
      | Some (JStr t) \<Rightarrow>
          (case fromisoformat e t of
             None \<Rightarrow> Inl ValueError
           | Some ts \<Rightarrow> Inr (Some ts))
      | Some _ \<Rightarrow> Inl TypeError)"

definition history_line :: "log_env \<Rightarrow> json option \<Rightarrow> line_outcome" where
  \<comment> \<open>the loop body of \<open>get_operation_history\<close>; \<open>data.get\<close> exists on objects only, and the
      arguments of the record are evaluated in order, \<open>operation_id\<close> before the timestamp\<close>
  "history_line e line =
     (case line of
        None \<Rightarrow> Skip
      | Some (JObj m) \<Rightarrow>
          if obj_get m ''event_type'' = Some (JStr ''security_event'') then Skip
          else if obj_get m ''operation_id'' = None then Skip
          else
            (case parse_timestamp e m of
               Inl x \<Rightarrow> Abort x
             | Inr None \<Rightarrow> Skip
             | Inr (Some ts) \<Rightarrow> make_record m ts)
      | Some _ \<Rightarrow> Abort AttributeError)"

definition search_line :: "log_env \<Rightarrow> string \<Rightarrow> int option \<Rightarrow> int option \<Rightarrow> json option \<Rightarrow> line_outcome" where
  \<comment> \<open>the loop body of \<open>search_logs\<close>\<close>
  "search_line e query start_time end_time line =
     (case line of
        None \<Rightarrow> Skip
      | Some (JObj m) \<Rightarrow>
          if obj_get m ''event_type'' = Some (JStr ''security_event'') then Skip
          else
            (case parse_timestamp e m of
               Inl x \<Rightarrow> Abort x
             | Inr None \<Rightarrow> Skip
             | Inr (Some record_time) \<Rightarrow>
                 if (case start_time of None \<Rightarrow> False | Some s \<Rightarrow> record_time < s) then Skip
                 else if (case end_time of None \<Rightarrow> False | Some t \<Rightarrow> record_time > t) then Skip
                 else if dumps_contains e query (JObj m) then make_record m record_time
                 else Skip)
      | Some _ \<Rightarrow> Abort AttributeError)"

fun scan :: "(json option \<Rightarrow> line_outcome) \<Rightarrow> json option list \<Rightarrow> operation_record list
               \<Rightarrow> exc + operation_record list" where
  \<comment> \<open>the \<open>for\<close> loop: an exception that escapes the body ends the loop\<close>
  "scan body [] records = Inr records"
| "scan body (line # rest) records =
     (case body line of
        Skip \<Rightarrow> scan body rest records
      | Rec r \<Rightarrow> scan body rest (records @ [r])
      | Abort x \<Rightarrow> Inl x)"

definition last_lines :: "'a list \<Rightarrow> int \<Rightarrow> 'a list" where
  \<comment> \<open>\<open>lines[-limit:]\<close>: the last \<open>limit\<close> lines for a positive limit, all lines for 0, and
      the lines from index \<open>-limit\<close> on for a negative one\<close>
  "last_lines ls limit =
     (if limit > 0 then drop (length ls - nat limit) ls else drop (nat (- limit)) ls)"

definition get_operation_history :: "log_env \<Rightarrow> audit_file \<Rightarrow> int \<Rightarrow> operation_record list" where
  \<comment> \<open>the outer \<open>except Exception\<close> handler returns the empty list\<close>
  "get_operation_history e file limit =
     (case file of
        Missing \<Rightarrow> []
      | Unreadable \<Rightarrow> []
      | Lines ls \<Rightarrow>
          (case scan (history_line e) (rev (last_lines ls limit)) [] of
             Inl x \<Rightarrow> []
           | Inr records \<Rightarrow> records))"

definition search_logs ::
  "log_env \<Rightarrow> audit_file \<Rightarrow> string \<Rightarrow> int option \<Rightarrow> int option \<Rightarrow> operation_record list" where
  "search_logs e file query start_time end_time =
     (case file of
        Missing \<Rightarrow> []
      | Unreadable \<Rightarrow> []
      | Lines ls \<Rightarrow>
          (case scan (search_line e query start_time end_time) ls [] of
             Inl x \<Rightarrow> []
           | Inr records \<Rightarrow> records))"

text \<open>
  Sample inputs: one well-formed operation record, and library stand-ins that are right on
  the values used here (the one timestamp, the empty query, which every text contains).
\<close>

definition sample_log_env :: log_env where
  "sample_log_env =
     \<lparr>fromisoformat = (\<lambda>s. if s = ''2024-01-01T12:00:00'' then Some 1704110400 else None),
      dumps_contains = (\<lambda>query data. query = [])\<rparr>"

definition sample_line :: json where
  "sample_line =
     JObj [(''operation_id'', JStr ''op-1''), (''timestamp'', JStr ''2024-01-01T12:00:00''),
           (''operation_type'', JStr ''modify''), (''target'', JStr ''en0''),
           (''parameters'', JObj []), (''result'', JStr ''success''),
           (''backup_id'', JNull), (''risk_level'', JStr ''medium''),
           (''user'', JStr ''admin''), (''duration'', JNum 1)]"

definition sample_record :: operation_record where
  "sample_record =
     \<lparr>or_operation_id = JStr ''op-1'', or_timestamp = 1704110400,
      or_operation_type = JStr ''modify'', or_target = JStr ''en0'', or_parameters = JObj [],
      or_result = JStr ''success'', or_backup_id = JNull, or_risk_level = JStr ''medium'',
      or_user = JStr ''admin'', or_duration = JNum 1\<rparr>"

definition sample_bad_timestamp_line :: json where
  \<comment> \<open>an operation record with every key, whose timestamp is not ISO 8601\<close>
  "sample_bad_timestamp_line =
     JObj [(''operation_id'', JStr ''op-2''), (''timestamp'', JStr ''yesterday''),
           (''operation_type'', JStr ''modify''), (''target'', JStr ''en0''),
           (''parameters'', JObj []), (''result'', JStr ''success''),
           (''backup_id'', JNull), (''risk_level'', JStr ''medium''),
           (''user'', JStr ''admin''), (''duration'', JNum 1)]"

section \<open>MAC address normalisation\<close>

lemma is_hex_cases:
  "is_hex c \<Longrightarrow>
     c = CHR ''0'' \<or> c = CHR ''1'' \<or> c = CHR ''2'' \<or> c = CHR ''3'' \<or> c = CHR ''4'' \<or>
     c = CHR ''5'' \<or> c = CHR ''6'' \<or> c = CHR ''7'' \<or> c = CHR ''8'' \<or> c = CHR ''9'' \<or>
     c = CHR ''A'' \<or> c = CHR ''B'' \<or> c = CHR ''C'' \<or> c = CHR ''D'' \<or> c = CHR ''E'' \<or>
     c = CHR ''F'' \<or> c = CHR ''a'' \<or> c = CHR ''b'' \<or> c = CHR ''c'' \<or> c = CHR ''d'' \<or>
     c = CHR ''e'' \<or> c = CHR ''f''"
  by (auto simp: is_hex_def)

lemma upper_char_hex: "is_hex c \<Longrightarrow> is_hex (upper_char c)"
  by (drule is_hex_cases, elim disjE) (simp_all add: is_hex_def upper_char_def)

lemma upper_char_idem_hex: "is_hex c \<Longrightarrow> upper_char (upper_char c) = upper_char c"
  by (drule is_hex_cases, elim disjE) (simp_all add: upper_char_def)

lemma upper_char_canonical: "is_hex c \<Longrightarrow> upper_char c \<in> canonical_alphabet"
  by (drule is_hex_cases, elim disjE) (simp_all add: upper_char_def canonical_alphabet_def)

lemma colon_canonical: "CHR '':'' \<in> canonical_alphabet"
  by (simp add: canonical_alphabet_def)

lemma is_hex_not_sep: "is_hex c \<Longrightarrow> \<not> is_sep c"
  by (drule is_hex_cases, elim disjE) (simp_all add: is_sep_def)

lemma is_sep_not_hex: "is_sep c \<Longrightarrow> \<not> is_hex c"
  by (auto simp: is_sep_def is_hex_def)

lemma colon_not_hex: "\<not> is_hex CHR '':''"
  by (simp add: is_hex_def)

lemma newline_not_hex: "\<not> is_hex CHR 0x0A"
  by (simp add: is_hex_def)

lemma re_groups_Suc:
  "re_groups (Suc n) s = Some r \<longleftrightarrow>
     (\<exists>a b c s'. s = a # b # c # s' \<and> is_hex a \<and> is_hex b \<and> is_sep c \<and> re_groups n s' = Some r)"
  by (cases "(Suc n, s)" rule: re_groups.cases) auto

lemma normalize_twelve:
  assumes "filter is_hex mac = [a, b, c, d, e, f, g, h, i, j, k, l]"
  shows "normalize_mac_address mac =
     [upper_char a, upper_char b, CHR '':'', upper_char c, upper_char d, CHR '':'',
      upper_char e, upper_char f, CHR '':'', upper_char g, upper_char h, CHR '':'',
      upper_char i, upper_char j, CHR '':'', upper_char k, upper_char l]"
proof -
  have "mac \<noteq> []" using assms by auto
  then show ?thesis
    using assms by (simp add: normalize_mac_address_def slice2_def str_upper_def)
qed

lemma length_twelve:
  "length (xs :: 'a list) = 12 \<Longrightarrow> \<exists>a b c d e f g h i j k l. xs = [a, b, c, d, e, f, g, h, i, j, k, l]"
  by (simp add: numeral_eq_Suc length_Suc_conv) blast


lemma normalize_short:
  "mac = [] \<or> length (filter is_hex mac) \<noteq> 12 \<Longrightarrow> normalize_mac_address mac = mac"
  by (auto simp: normalize_mac_address_def)

lemma normalize_idem:
  "normalize_mac_address (normalize_mac_address mac) = normalize_mac_address mac"
proof (cases "mac = [] \<or> length (filter is_hex mac) \<noteq> 12")
  case True
  then show ?thesis by (simp add: normalize_short)
next
  case False
  then obtain a b c d e f g h i j k l
    where clean: "filter is_hex mac = [a, b, c, d, e, f, g, h, i, j, k, l]"
    using length_twelve [of "filter is_hex mac"] by auto
  have "\<forall>x \<in> set (filter is_hex mac). is_hex x" by simp
  then have hex: "is_hex a" "is_hex b" "is_hex c" "is_hex d" "is_hex e" "is_hex f"
    "is_hex g" "is_hex h" "is_hex i" "is_hex j" "is_hex k" "is_hex l"
    unfolding clean by simp_all
  let ?r = "normalize_mac_address mac"
  have r: "?r =
     [upper_char a, upper_char b, CHR '':'', upper_char c, upper_char d, CHR '':'',
      upper_char e, upper_char f, CHR '':'', upper_char g, upper_char h, CHR '':'',
      upper_char i, upper_char j, CHR '':'', upper_char k, upper_char l]"
    by (rule normalize_twelve [OF clean])
  have "filter is_hex ?r =
     [upper_char a, upper_char b, upper_char c, upper_char d, upper_char e, upper_char f,
      upper_char g, upper_char h, upper_char i, upper_char j, upper_char k, upper_char l]"
    unfolding r using hex by (simp add: upper_char_hex colon_not_hex)
  from normalize_twelve [OF this] show ?thesis
    unfolding r using hex by (simp add: upper_char_idem_hex)
qed

lemma validate_mac_shape:
  assumes "validate_mac_address mac"
  shows "\<exists>a b s1 c d s2 e f s3 g h s4 i j s5 k l tl.
           mac = [a, b, s1, c, d, s2, e, f, s3, g, h, s4, i, j, s5, k, l] @ tl \<and>
           (tl = [] \<or> tl = [CHR 0x0A]) \<and>
           is_hex a \<and> is_hex b \<and> is_hex c \<and> is_hex d \<and> is_hex e \<and> is_hex f \<and>
           is_hex g \<and> is_hex h \<and> is_hex i \<and> is_hex j \<and> is_hex k \<and> is_hex l \<and>
           is_sep s1 \<and> is_sep s2 \<and> is_sep s3 \<and> is_sep s4 \<and> is_sep s5"
proof -
  from assms obtain rest where g: "re_groups 5 mac = Some rest"
    and rest: "(case rest of
             [a, b] \<Rightarrow> is_hex a \<and> is_hex b
           | [a, b, nl] \<Rightarrow> is_hex a \<and> is_hex b \<and> nl = CHR 0x0A
           | _ \<Rightarrow> False)"
    by (auto simp: validate_mac_address_def split: option.splits)
  from rest obtain k l tl where r: "rest = [k, l] @ tl" "tl = [] \<or> tl = [CHR 0x0A]"
    "is_hex k" "is_hex l"
    by (auto split: list.splits)
  have five: "5 = Suc (Suc (Suc (Suc (Suc 0))))" by simp
  from g show ?thesis
    unfolding five re_groups_Suc using r by auto
qed

text \<open>
  Claim C7. Every string accepted by the MAC syntax check (six pairs of hexadecimal digits
  delimited by colons or hyphens) is normalised to the canonical form: its first seventeen
  characters with every delimiter replaced by a colon and every digit in upper case. The
  result is again a valid MAC, consists of upper-case hexadecimal digits and colons only,
  and normalising it a second time returns the same string.
\<close>

theorem normalize_mac_address_canonical:
  "validate_mac_address mac \<Longrightarrow>
     normalize_mac_address mac = map canonical_char (take 17 mac) \<and>
     validate_mac_address (normalize_mac_address mac) \<and>
     set (normalize_mac_address mac) \<subseteq> canonical_alphabet \<and>
     normalize_mac_address (normalize_mac_address mac) = normalize_mac_address mac"
proof -
  assume v: "validate_mac_address mac"
  from validate_mac_shape [OF v] obtain a b s1 c d s2 e f s3 g h s4 i j s5 k l tl where
    mac: "mac = [a, b, s1, c, d, s2, e, f, s3, g, h, s4, i, j, s5, k, l] @ tl" and
    tl: "tl = [] \<or> tl = [CHR 0x0A]" and
    hex: "is_hex a" "is_hex b" "is_hex c" "is_hex d" "is_hex e" "is_hex f"
         "is_hex g" "is_hex h" "is_hex i" "is_hex j" "is_hex k" "is_hex l" and
    sep: "is_sep s1" "is_sep s2" "is_sep s3" "is_sep s4" "is_sep s5"
    by blast
  have clean: "filter is_hex mac = [a, b, c, d, e, f, g, h, i, j, k, l]"
    unfolding mac using tl hex sep by (auto simp: is_sep_not_hex newline_not_hex)
  note r = normalize_twelve [OF clean]
  have canon: "normalize_mac_address mac = map canonical_char (take 17 mac)"
    unfolding r unfolding mac using hex sep by (simp add: canonical_char_def is_hex_not_sep)
  have five: "5 = Suc (Suc (Suc (Suc (Suc 0))))" by simp
  have valid: "validate_mac_address (normalize_mac_address mac)"
    unfolding r validate_mac_address_def five using hex
    by (simp add: upper_char_hex is_sep_def)
  have chars: "set (normalize_mac_address mac) \<subseteq> canonical_alphabet"
    unfolding r using hex by (simp add: upper_char_canonical colon_canonical)
  from canon valid chars normalize_idem show ?thesis by blast
qed

text \<open>The hyphen-delimited lower-case address \<open>aa-bb-cc-dd-ee-ff\<close>.\<close>

theorem normalize_mac_address_canonical_witness:
  "validate_mac_address ''aa-bb-cc-dd-ee-ff'' \<and>
   normalize_mac_address ''aa-bb-cc-dd-ee-ff'' = ''AA:BB:CC:DD:EE:FF'' \<and>
   normalize_mac_address ''AA:BB:CC:DD:EE:FF'' = ''AA:BB:CC:DD:EE:FF''"
proof -
  have five: "5 = Suc (Suc (Suc (Suc (Suc 0))))" by simp
  have v: "validate_mac_address ''aa-bb-cc-dd-ee-ff''"
    unfolding validate_mac_address_def five by (simp add: is_hex_def is_sep_def)
  have c: "map canonical_char (take 17 ''aa-bb-cc-dd-ee-ff'') = ''AA:BB:CC:DD:EE:FF''"
    by (simp add: canonical_char_def is_sep_def upper_char_def)
  from normalize_mac_address_canonical [OF v] show ?thesis
    using v unfolding c by auto
qed

section \<open>Random MAC generation\<close>

lemma hex_digits_roundtrip:
  "list_all (\<lambda>k. hex_value (hex_digit_upper k) = Some k) (map nat [0..15])"
  by (simp add: upto.simps hex_value_def hex_digit_upper_def)

lemma hex_value_digit_upper: "n < 16 \<Longrightarrow> hex_value (hex_digit_upper n) = Some n"
proof -
  assume "n < 16"
  then have "n \<in> set (map nat [0..15])"
    by (auto simp: image_iff intro: bexI [of _ "int n"])
  with hex_digits_roundtrip show ?thesis by (simp only: list_all_iff)
qed

lemma first_octet_format_02X: "first_octet (format_02X b @ rest) = Some (unat b)"
proof -
  have "unat b < 256" using unsigned_less [of b] by simp
  then have "unat b div 16 < 16" "unat b mod 16 < 16" by simp_all
  then show ?thesis
    by (simp add: first_octet_def format_02X_def hex_value_digit_upper)
qed

lemma forced_bits:
  "\<not> bit (unat ((r OR 0x02) AND (0xFE :: 8 word))) 0 \<and>
   bit (unat ((r OR 0x02) AND (0xFE :: 8 word))) 1"
  by (simp add: bit_unsigned_iff bit_and_iff bit_or_iff)

lemma format_mac_hex_head:
  "2 \<le> length mac_hex \<Longrightarrow> take 2 (format_mac_hex mac_hex) = take 2 mac_hex"
  by (simp add: format_mac_hex_def slice2_def)

lemma format_mac_hex_02X:
  "format_mac_hex (format_02X b @ rest) = format_02X b @ CHR '':'' # join '':'' (map (slice2 (format_02X b @ rest)) [2, 4, 6, 8, 10])"
  by (simp add: format_mac_hex_def slice2_def format_02X_def)

lemma generate_random_mac_none:
  assumes "vendor_prefix = None \<or> vendor_prefix = Some []"
  shows "\<exists>mac. generate_random_mac p vendor_prefix rnd = Inr mac \<and> unicast_local mac"
proof -
  let ?b = "(rnd 0 OR 0x02) AND (0xFE :: 8 word)"
  let ?hex = "format_02X ?b @ concat (map format_02X (map rnd [1, 2, 3, 4, 5]))"
  have run: "generate_random_mac p vendor_prefix rnd = Inr (format_mac_hex ?hex)"
    using assms by (auto simp: generate_random_mac_def)
  have "first_octet (format_mac_hex ?hex) = Some (unat ?b)"
    unfolding format_mac_hex_02X by (simp only: first_octet_format_02X [of ?b, simplified] append_Cons [symmetric])
  then have "unicast_local (format_mac_hex ?hex)"
    using forced_bits [of "rnd 0"] by (simp add: unicast_local_def)
  with run show ?thesis by blast
qed

lemma generate_random_mac_prefix:
  assumes "generate_random_mac p (Some (v # vs)) rnd = Inr mac"
  shows "take 2 mac = take 2 (str_remove CHR ''-'' (str_remove CHR '':'' (v # vs)))"
proof -
  let ?s = "str_remove CHR ''-'' (str_remove CHR '':'' (v # vs))"
  let ?suffix = "concat (map (\<lambda>i. format_suffix_byte p (rnd i)) [0, 1, 2])"
  from assms have len: "length (take 6 ?s) = 6"
    and mac: "mac = format_mac_hex (take 6 ?s @ ?suffix)"
    by (auto simp: generate_random_mac_def Let_def split: if_splits)
  have "take 2 mac = take 2 (take 6 ?s @ ?suffix)"
    unfolding mac using len by (intro format_mac_hex_head) simp
  also have "\<dots> = take 2 (take 6 ?s)" using len by simp
  also have "\<dots> = take 2 ?s" by simp
  finally show ?thesis .
qed

text \<open>
  Claim C1, as the code has it. Without a vendor prefix (none given, or the empty string)
  the function always returns a MAC whose first octet has its lowest bit 0 and its
  second-lowest bit 1, on both platforms and for every outcome of the random source. With a
  vendor prefix the function either raises or returns a MAC that starts with the first two
  characters of the prefix once colons and hyphens are removed: the first octet is the
  caller's, and its bits are not changed.
\<close>

theorem generate_random_mac_first_octet:
  "((vendor_prefix = None \<or> vendor_prefix = Some []) \<longrightarrow>
      (\<exists>mac. generate_random_mac p vendor_prefix rnd = Inr mac \<and> unicast_local mac)) \<and>
   (generate_random_mac p (Some (v # vs)) rnd = Inr mac' \<longrightarrow>
      take 2 mac' = take 2 (str_remove CHR ''-'' (str_remove CHR '':'' (v # vs))))"
  using generate_random_mac_none generate_random_mac_prefix by blast

text \<open>
  No prefix and a random source that always returns 255 on macOS; the vendor prefix
  \<open>00:50:56\<close> on Windows.
\<close>

theorem generate_random_mac_first_octet_witness:
  "generate_random_mac MacOS None (const_rnd 255) = Inr ''FE:FF:FF:FF:FF:FF'' \<and>
   unicast_local ''FE:FF:FF:FF:FF:FF'' \<and>
   generate_random_mac Windows (Some ''00:50:56'') (const_rnd 255) = Inr ''00:50:56:FF:FF:FF'' \<and>
   take 2 ''00:50:56:FF:FF:FF'' = take 2 (str_remove CHR ''-'' (str_remove CHR '':'' ''00:50:56''))"
proof -
  have a: "generate_random_mac MacOS None (const_rnd 255) = Inr ''FE:FF:FF:FF:FF:FF''"
    by (simp add: generate_random_mac_def const_rnd_def format_mac_hex_def slice2_def
        format_02X_def hex_digit_upper_def)
  have b: "generate_random_mac Windows (Some ''00:50:56'') (const_rnd 255) = Inr ''00:50:56:FF:FF:FF''"
    by (simp add: generate_random_mac_def const_rnd_def format_mac_hex_def slice2_def
        format_suffix_byte_def format_02X_def hex_digit_upper_def str_remove_def)
  note c = generate_random_mac_first_octet
    [where vendor_prefix = None and p = MacOS and rnd = "const_rnd 255"]
  note d = generate_random_mac_first_octet
    [where p = Windows and rnd = "const_rnd 255" and v = "CHR ''0''" and vs = "''0:50:56''"
       and mac' = "''00:50:56:FF:FF:FF''"]
  from c d show ?thesis using a b by auto
qed

text \<open>
  Claim C1 as stated fails when a vendor prefix is supplied: with the prefix \<open>01:00:5E\<close>
  the returned MAC starts with the octet \<open>01\<close>, whose lowest bit is 1 and whose
  second-lowest bit is 0.
\<close>

theorem generate_random_mac_prefix_counterexample:
  "generate_random_mac Windows (Some ''01:00:5E'') (const_rnd 0) = Inr ''01:00:5E:00:00:00'' \<and>
   generate_random_mac MacOS (Some ''01:00:5E'') (const_rnd 0) = Inr ''01:00:5E:00:00:00'' \<and>
   first_octet ''01:00:5E:00:00:00'' = Some 1 \<and>
   \<not> unicast_local ''01:00:5E:00:00:00''"
  by (simp add: generate_random_mac_def const_rnd_def format_mac_hex_def slice2_def
      format_suffix_byte_def format_02X_def format_02x_def hex_digit_upper_def
      hex_digit_lower_def str_remove_def unicast_local_def first_octet_def hex_value_def)

section \<open>Validation verdicts\<close>

lemma risk_le_refl: "risk_le a a"
  by (simp add: risk_le_def)

lemma risk_le_Critical: "risk_le a Critical"
  by (cases a) (simp_all add: risk_le_def)

lemma mac_rule_step_rank_ge:
  "risk_rank (risk_level vr) \<le> risk_rank (risk_level (mac_rule_step e vr item))"
  by (cases "risk_level vr")
     (auto simp: mac_rule_step_def add_error_def add_warning_def Let_def
           split: prod.splits option.splits)

lemma mac_rule_step_rank_le1:
  "risk_rank (risk_level vr) \<le> 1 \<Longrightarrow> risk_rank (risk_level (mac_rule_step e vr item)) \<le> 1"
  by (cases "risk_level vr")
     (auto simp: mac_rule_step_def add_error_def add_warning_def Let_def
           split: prod.splits option.splits)

lemma mac_rule_step_errors:
  "(errors vr \<noteq> [] \<longrightarrow> \<not> valid vr) \<Longrightarrow>
   errors (mac_rule_step e vr item) \<noteq> [] \<longrightarrow> \<not> valid (mac_rule_step e vr item)"
  by (auto simp: mac_rule_step_def add_error_def add_warning_def Let_def
           split: prod.splits option.splits)

lemma mac_rule_states_nonempty: "mac_rule_states e vr items \<noteq> []"
  by (cases items) simp_all

lemma mac_rule_states_last: "last (mac_rule_states e vr items) = foldl (mac_rule_step e) vr items"
  by (induction items arbitrary: vr) (simp_all add: mac_rule_states_nonempty)

lemma mac_rule_states_hd: "hd (mac_rule_states e vr items) = vr"
  by (cases items) simp_all

lemma mac_rule_states_ranks:
  "risk_rank (risk_level vr) \<le> 1 \<Longrightarrow>
     sorted (map (\<lambda>s. risk_rank (risk_level s)) (mac_rule_states e vr items)) \<and>
     (\<forall>s \<in> set (mac_rule_states e vr items).
        risk_rank (risk_level vr) \<le> risk_rank (risk_level s) \<and> risk_rank (risk_level s) \<le> 1)"
proof (induction items arbitrary: vr)
  case Nil
  then show ?case by simp
next
  case (Cons item items)
  let ?vr' = "mac_rule_step e vr item"
  have le1: "risk_rank (risk_level ?vr') \<le> 1"
    using Cons.prems by (rule mac_rule_step_rank_le1)
  have ge: "risk_rank (risk_level vr) \<le> risk_rank (risk_level ?vr')"
    by (rule mac_rule_step_rank_ge)
  from Cons.IH [OF le1] ge Cons.prems show ?case
    by (auto intro: order_trans)
qed

lemma mac_rule_states_errors:
  "(errors vr \<noteq> [] \<longrightarrow> \<not> valid vr) \<Longrightarrow>
   \<forall>s \<in> set (mac_rule_states e vr items). errors s \<noteq> [] \<longrightarrow> \<not> valid s"
proof (induction items arbitrary: vr)
  case Nil
  then show ?case by simp
next
  case (Cons item items)
  from Cons.IH [OF mac_rule_step_errors [OF Cons.prems]] Cons.prems
  show ?case by simp
qed

lemma mac_rule_as_last:
  "mac_rule e ch vr =
     last (mac_rule_states e vr (case mac_changes ch of None \<Rightarrow> [] | Some items \<Rightarrow> items))"
  by (simp add: mac_rule_def mac_rule_states_last split: option.splits)

lemma validation_states_last:
  "last (validation_states p e ch) = validate_fingerprint_changes p e ch"
  by (cases p)
     (simp_all add: validation_states_def validate_fingerprint_changes_def validate_windows_def
        validate_macos_def mac_rule_as_last Let_def split: sum.splits)

lemma validation_states_hd: "hd (validation_states p e ch) = initial_result"
  by (cases p)
     (simp_all add: validation_states_def Let_def mac_rule_states_nonempty mac_rule_states_hd
        split: sum.splits)

lemma sorted_wrt_risk_le:
  "sorted_wrt risk_le (map risk_level xs) = sorted (map (\<lambda>s. risk_rank (risk_level s)) xs)"
  by (induction xs) (auto simp: risk_le_def)

lemma guid_rule_windows_rank:
  "guid_rule_windows e ch vr = Inr vr' \<Longrightarrow> risk_rank (risk_level vr) \<le> 1 \<Longrightarrow>
     risk_rank (risk_level vr) \<le> risk_rank (risk_level vr')"
  by (auto simp: guid_rule_windows_def add_error_def add_warning_def
           split: option.splits exc.splits)

lemma guid_rule_windows_errors:
  "guid_rule_windows e ch vr = Inr vr' \<Longrightarrow> (errors vr \<noteq> [] \<longrightarrow> \<not> valid vr) \<Longrightarrow>
     errors vr' \<noteq> [] \<longrightarrow> \<not> valid vr'"
  by (auto simp: guid_rule_windows_def add_error_def add_warning_def
           split: option.splits exc.splits)

lemma volume_rule_windows_rank:
  "risk_rank (risk_level vr) \<le> risk_rank (risk_level (volume_rule_windows ch vr))"
  by (cases "risk_level vr") (auto simp: volume_rule_windows_def add_error_def split: option.splits)

lemma hardware_uuid_rule_macos_rank:
  "risk_rank (risk_level vr) \<le> risk_rank (risk_level (hardware_uuid_rule_macos ch vr))"
  by (cases "risk_level vr")
     (auto simp: hardware_uuid_rule_macos_def add_error_def split: option.splits)

lemma volume_rule_macos_rank:
  "risk_rank (risk_level vr) \<le> risk_rank (risk_level (volume_rule_macos ch vr))"
  by (cases "risk_level vr") (auto simp: volume_rule_macos_def add_error_def split: option.splits)

lemma permission_rule_macos_risk:
  "risk_level (permission_rule_macos e ch vr) = risk_level vr"
  by (auto simp: permission_rule_macos_def add_error_def split: option.splits list.splits)

lemma initial_rank: "risk_rank (risk_level initial_result) \<le> 1"
  by (simp add: initial_result_def)

lemma validation_states_sorted:
  "sorted (map (\<lambda>s. risk_rank (risk_level s)) (validation_states p e ch))"
proof -
  let ?items = "case mac_changes ch of None \<Rightarrow> [] | Some items \<Rightarrow> items"
  let ?macs = "mac_rule_states e initial_result ?items"
  let ?rk = "\<lambda>s. risk_rank (risk_level s)"
  note ranks = mac_rule_states_ranks [OF initial_rank, of e ?items]
  have srt: "sorted (map ?rk ?macs)" using ranks by blast
  have last_in: "last ?macs \<in> set ?macs" by (simp add: mac_rule_states_nonempty)
  have le1: "\<forall>s \<in> set ?macs. ?rk s \<le> 1" using ranks by blast
  have last_ge: "\<forall>s \<in> set ?macs. ?rk s \<le> ?rk (last ?macs)"
  proof
    fix s assume "s \<in> set ?macs"
    then obtain i where i: "i < length ?macs" "?macs ! i = s"
      by (auto simp: in_set_conv_nth)
    have "map ?rk ?macs ! i \<le> map ?rk ?macs ! (length ?macs - 1)"
      using srt i(1) by (intro sorted_nth_mono) auto
    then show "?rk s \<le> ?rk (last ?macs)"
      using i by (simp add: last_conv_nth mac_rule_states_nonempty)
  qed
  show ?thesis
  proof (cases p)
    case Windows
    show ?thesis
    proof (cases "guid_rule_windows e ch (last ?macs)")
      case (Inl x)
      have "\<forall>s \<in> set ?macs. ?rk s \<le> ?rk (failed_validation x)"
        using le1 by (auto simp: failed_validation_def)
      then show ?thesis
        using Windows Inl srt by (simp add: validation_states_def Let_def sorted_append)
    next
      case (Inr r2)
      have a: "?rk (last ?macs) \<le> ?rk r2"
        using guid_rule_windows_rank [OF Inr] le1 last_in by blast
      have b: "?rk r2 \<le> ?rk (volume_rule_windows ch r2)"
        by (rule volume_rule_windows_rank)
      have "\<forall>s \<in> set ?macs. ?rk s \<le> ?rk r2 \<and> ?rk s \<le> ?rk (volume_rule_windows ch r2)"
        using last_ge a b by (meson order_trans)
      then show ?thesis
        using Windows Inr srt b by (simp add: validation_states_def Let_def sorted_append)
    qed
  next
    case MacOS
    let ?r2 = "hardware_uuid_rule_macos ch (last ?macs)"
    let ?r3 = "volume_rule_macos ch ?r2"
    have a: "?rk (last ?macs) \<le> ?rk ?r2" by (rule hardware_uuid_rule_macos_rank)
    have b: "?rk ?r2 \<le> ?rk ?r3" by (rule volume_rule_macos_rank)
    have "\<forall>s \<in> set ?macs. ?rk s \<le> ?rk ?r2 \<and> ?rk s \<le> ?rk ?r3"
      using last_ge a b by (meson order_trans)
    then show ?thesis
      using MacOS srt a b
      by (simp add: validation_states_def Let_def sorted_append permission_rule_macos_risk)
  qed
qed

lemma validate_errors_invalid:
  "errors (validate_fingerprint_changes p e ch) \<noteq> [] \<longrightarrow>
     \<not> valid (validate_fingerprint_changes p e ch)"
proof -
  let ?items = "case mac_changes ch of None \<Rightarrow> [] | Some items \<Rightarrow> items"
  let ?macs = "mac_rule_states e initial_result ?items"
  have "errors initial_result \<noteq> [] \<longrightarrow> \<not> valid initial_result"
    by (simp add: initial_result_def)
  from mac_rule_states_errors [OF this, of e ?items]
  have r1: "errors (last ?macs) \<noteq> [] \<longrightarrow> \<not> valid (last ?macs)"
    using last_in_set [OF mac_rule_states_nonempty] by blast
  show ?thesis
  proof (cases p)
    case Windows
    show ?thesis
    proof (cases "guid_rule_windows e ch (last ?macs)")
      case (Inl x)
      then show ?thesis using Windows
        by (simp add: validate_fingerprint_changes_def validate_windows_def mac_rule_as_last
            failed_validation_def)
    next
      case (Inr r2)
      from guid_rule_windows_errors [OF Inr r1] show ?thesis using Windows Inr
        by (auto simp: validate_fingerprint_changes_def validate_windows_def mac_rule_as_last
            volume_rule_windows_def add_error_def split: option.splits)
    qed
  next
    case MacOS
    then show ?thesis using r1
      by (auto simp: validate_fingerprint_changes_def validate_macos_def mac_rule_as_last
          hardware_uuid_rule_macos_def volume_rule_macos_def permission_rule_macos_def
          add_error_def split: option.splits list.splits)
  qed
qed

text \<open>
  Claim C3. Whenever the change-set has a \<open>volume_serial_changes\<close> entry, validation on
  either platform returns a verdict that is invalid and whose risk level is critical.
\<close>

theorem volume_changes_rejected:
  "volume_serial_changes ch \<noteq> None \<Longrightarrow>
     \<not> valid (validate_fingerprint_changes p e ch) \<and>
     risk_level (validate_fingerprint_changes p e ch) = Critical"
  by (cases p)
     (auto simp: validate_fingerprint_changes_def validate_windows_def validate_macos_def
        volume_rule_windows_def volume_rule_macos_def permission_rule_macos_def
        failed_validation_def add_error_def
        split: sum.splits option.splits list.splits)

text \<open>A volume-serial change for drive \<open>C:\<close>, on Windows and on macOS.\<close>

theorem volume_changes_rejected_witness:
  "volume_serial_changes (no_changes\<lparr>volume_serial_changes := Some [(''C:'', ''1234-ABCD'')]\<rparr>) \<noteq> None \<and>
   \<not> valid (validate_fingerprint_changes Windows (sample_env True)
              (no_changes\<lparr>volume_serial_changes := Some [(''C:'', ''1234-ABCD'')]\<rparr>)) \<and>
   risk_level (validate_fingerprint_changes MacOS (sample_env True)
              (no_changes\<lparr>volume_serial_changes := Some [(''C:'', ''1234-ABCD'')]\<rparr>)) = Critical"
proof -
  let ?ch = "no_changes\<lparr>volume_serial_changes := Some [(''C:'', ''1234-ABCD'')]\<rparr>"
  have h: "volume_serial_changes ?ch \<noteq> None" by (simp add: no_changes_def)
  from volume_changes_rejected [OF h, of Windows "sample_env True"]
       volume_changes_rejected [OF h, of MacOS "sample_env True"]
  show ?thesis using h by blast
qed

text \<open>
  Claim C4. A change-set that holds only a machine-identity change (the \<open>hardware_uuid\<close>
  entry on macOS, the \<open>machine_guid\<close> entry on Windows) is invalid on macOS; on Windows, when
  the identifier is one that the UUID constructor accepts, the verdict is valid and the risk
  level is at least high.
\<close>

theorem identity_change_verdict:
  "\<not> valid (validate_fingerprint_changes MacOS e (identity_change MacOS g)) \<and>
   (uuid_UUID e g = None \<longrightarrow>
      valid (validate_fingerprint_changes Windows e (identity_change Windows g)) \<and>
      risk_le High (risk_level (validate_fingerprint_changes Windows e (identity_change Windows g))))"
  by (simp add: validate_fingerprint_changes_def validate_windows_def validate_macos_def
      identity_change_def no_changes_def mac_rule_def guid_rule_windows_def
      volume_rule_windows_def hardware_uuid_rule_macos_def volume_rule_macos_def
      permission_rule_macos_def initial_result_def add_error_def add_warning_def risk_le_def)

text \<open>The identifier \<open>12345678-1234-1234-1234-123456789abc\<close>.\<close>

theorem identity_change_verdict_witness:
  "uuid_UUID (sample_env True) ''12345678-1234-1234-1234-123456789abc'' = None \<and>
   valid (validate_fingerprint_changes Windows (sample_env True)
            (identity_change Windows ''12345678-1234-1234-1234-123456789abc'')) \<and>
   risk_level (validate_fingerprint_changes Windows (sample_env True)
            (identity_change Windows ''12345678-1234-1234-1234-123456789abc'')) = High \<and>
   \<not> valid (validate_fingerprint_changes MacOS (sample_env True)
            (identity_change MacOS ''12345678-1234-1234-1234-123456789abc''))"
proof -
  let ?g = "''12345678-1234-1234-1234-123456789abc''"
  have h: "uuid_UUID (sample_env True) ?g = None"
    by (simp add: sample_env_def sample_uuid_UUID_def str_remove_def is_hex_def)
  have r: "risk_level (validate_fingerprint_changes Windows (sample_env True)
            (identity_change Windows ?g)) = High"
    using h
    by (simp add: validate_fingerprint_changes_def validate_windows_def
        identity_change_def no_changes_def mac_rule_def guid_rule_windows_def
        volume_rule_windows_def initial_result_def add_warning_def)
  from identity_change_verdict [of "sample_env True" ?g] show ?thesis
    using h r by blast
qed

text \<open>
  Claim C6. In the verdict of every validation run a non-empty error list comes with
  \<open>valid = False\<close>. The risk level never goes down while the change-set is validated: along
  the successive values of the result (initial value, after each MAC entry, after each later
  rule, ending in the returned verdict) it is non-decreasing in the order
  low < medium < high < critical.
\<close>

theorem validation_errors_and_risk_monotone:
  "(errors (validate_fingerprint_changes p e ch) \<noteq> [] \<longrightarrow>
      \<not> valid (validate_fingerprint_changes p e ch)) \<and>
   hd (validation_states p e ch) = initial_result \<and>
   last (validation_states p e ch) = validate_fingerprint_changes p e ch \<and>
   sorted_wrt risk_le (map risk_level (validation_states p e ch))"
  using validate_errors_invalid validation_states_hd validation_states_last
    validation_states_sorted
  by (simp add: sorted_wrt_risk_le)

lemma validate_mac_address_sample: "validate_mac_address ''00:11:22:33:44:55''"
proof -
  have five: "5 = Suc (Suc (Suc (Suc (Suc 0))))" by simp
  show ?thesis
    unfolding validate_mac_address_def five by (simp add: is_hex_def is_sep_def)
qed

text \<open>The sample change-set on Windows: its verdict has errors, and the risk level goes
  from low to medium at the first MAC entry and to critical at the volume rule.\<close>

theorem validation_errors_and_risk_monotone_witness:
  "errors (validate_fingerprint_changes Windows (sample_env True) sample_changes) \<noteq> [] \<and>
   \<not> valid (validate_fingerprint_changes Windows (sample_env True) sample_changes) \<and>
   map risk_level (validation_states Windows (sample_env True) sample_changes) =
     [Low, Medium, Medium, Medium, Critical]"
proof -
  have s: "map risk_level (validation_states Windows (sample_env True) sample_changes) =
     [Low, Medium, Medium, Medium, Critical]"
    by (simp add: validation_states_def sample_changes_def sample_env_def sample_adapter_def
        sample_uuid_UUID_def str_remove_def initial_result_def mac_rule_step_def
        guid_rule_windows_def volume_rule_windows_def add_error_def add_warning_def
        validate_mac_address_sample Let_def)
  have "errors (last (validation_states Windows (sample_env True) sample_changes)) \<noteq> []"
    by (simp add: validation_states_def sample_changes_def sample_env_def sample_adapter_def
        sample_uuid_UUID_def str_remove_def initial_result_def mac_rule_step_def
        guid_rule_windows_def volume_rule_windows_def add_error_def add_warning_def
        validate_mac_address_sample Let_def)
  with validation_errors_and_risk_monotone [of Windows "sample_env True" sample_changes] s
  show ?thesis by simp
qed

section \<open>Permission checks before native writes\<close>

text \<open>
  Claim C2, as the code has it. When the privilege is absent, every mutating call of either
  fingerprint manager ends in \<open>OperationError\<close> (the code never raises the project's
  \<open>PermissionError\<close>). On Windows each of the four calls makes exactly one event, the
  administrator check, which comes first and is where the call stops. On macOS
  \<open>modify_mac_address\<close> and \<open>restore_original_mac\<close> make exactly one event, the permission
  check for \<open>modify_mac_address\<close>, while \<open>modify_machine_guid\<close> and
  \<open>modify_volume_serial\<close> raise at once and make no event at all, not even a check. In
  every case no delegated call that writes to the system is reached.
\<close>

theorem privilege_absent_no_native_write:
  "privilege_absent p e \<Longrightarrow>
     fst (engine_call p e op) = Inl OperationError \<and>
     snd (engine_call p e op) =
       (case p of
          Windows \<Rightarrow> [CheckAdmin]
        | MacOS \<Rightarrow>
            (case op of
               ModifyMac aid new_mac \<Rightarrow> [CheckPermission ''modify_mac_address'']
             | RestoreMac aid \<Rightarrow> [CheckPermission ''modify_mac_address'']
             | ModifyGuid new_guid \<Rightarrow> []
             | ModifyVolume drive new_serial \<Rightarrow> [])) \<and>
     list_all is_check (snd (engine_call p e op)) \<and>
     \<not> list_ex is_native (snd (engine_call p e op))"
  by (cases p; cases op) (simp_all add: privilege_absent_def engine_call_def)

text \<open>
  An unprivileged process asks for a MAC change on Windows and on macOS, and for a new
  machine identifier on macOS.
\<close>

theorem privilege_absent_no_native_write_witness:
  "privilege_absent Windows (sample_env False) \<and>
   privilege_absent MacOS (sample_env False) \<and>
   engine_call Windows (sample_env False) (ModifyMac ''en0'' ''00:11:22:33:44:55'') =
     (Inl OperationError, [CheckAdmin]) \<and>
   engine_call MacOS (sample_env False) (ModifyMac ''en0'' ''00:11:22:33:44:55'') =
     (Inl OperationError, [CheckPermission ''modify_mac_address'']) \<and>
   engine_call MacOS (sample_env False) (ModifyGuid (Some ''12345678-1234-1234-1234-123456789abc'')) =
     (Inl OperationError, [])"
proof -
  have w: "privilege_absent Windows (sample_env False)"
    and m: "privilege_absent MacOS (sample_env False)"
    by (simp_all add: privilege_absent_def sample_env_def)
  note a = privilege_absent_no_native_write [OF w, of "ModifyMac ''en0'' ''00:11:22:33:44:55''"]
  note b = privilege_absent_no_native_write [OF m, of "ModifyMac ''en0'' ''00:11:22:33:44:55''"]
  note c = privilege_absent_no_native_write
    [OF m, of "ModifyGuid (Some ''12345678-1234-1234-1234-123456789abc'')"]
  from a b c show ?thesis using w m by (simp add: prod_eq_iff)
qed

text \<open>
  Claim C2 as stated fails in two ways. The unprivileged call surfaces \<open>OperationError\<close>,
  not \<open>PermissionError\<close>, on both platforms. And on macOS \<open>modify_machine_guid\<close> and
  \<open>modify_volume_serial\<close> do not perform a permission check at all: they raise with an empty
  trace, whether or not the process is privileged.
\<close>

theorem permission_error_counterexample:
  "privilege_absent Windows (sample_env False) \<and>
   fst (engine_call Windows (sample_env False) (ModifyMac ''en0'' ''00:11:22:33:44:55'')) \<noteq>
     Inl PermissionError \<and>
   privilege_absent MacOS (sample_env False) \<and>
   fst (engine_call MacOS (sample_env False) (RestoreMac ''en0'')) \<noteq> Inl PermissionError \<and>
   engine_call MacOS (sample_env False) (ModifyGuid (Some ''12345678-1234-1234-1234-123456789abc'')) =
     (Inl OperationError, []) \<and>
   engine_call MacOS (sample_env False) (ModifyVolume ''/'' ''1234-ABCD'') =
     (Inl OperationError, []) \<and>
   engine_call MacOS (sample_env True) (ModifyVolume ''/'' ''1234-ABCD'') =
     (Inl OperationError, [])"
  by (simp add: privilege_absent_def engine_call_def sample_env_def)

section \<open>Validation and backup before mutation\<close>

lemma apply_invalid:
  "\<not> valid (validate_fingerprint_changes p e ch) \<Longrightarrow>
     apply_fingerprint_changes p e ch = (Inl OperationError, [Validated])"
  by (simp add: apply_fingerprint_changes_def)

lemma apply_backup_fails:
  "valid (validate_fingerprint_changes p e ch) \<Longrightarrow> backup_current_fingerprint e = Inl x \<Longrightarrow>
     apply_fingerprint_changes p e ch = (Inl OperationError, [Validated, BackupFingerprint])"
  by (simp add: apply_fingerprint_changes_def)

lemma apply_backup_succeeds:
  "valid (validate_fingerprint_changes p e ch) \<Longrightarrow> backup_current_fingerprint e = Inr b \<Longrightarrow>
     apply_fingerprint_changes p e ch =
       (Inr (fst (apply_after_backup p e ch)),
        Validated # BackupFingerprint # snd (apply_after_backup p e ch))"
  by (simp add: apply_fingerprint_changes_def split: prod.splits)

text \<open>
  Claim C5. \<open>apply_fingerprint_changes\<close> validates first. With an invalid verdict it raises
  \<open>OperationError\<close> and nothing else happens: no backup, no mutating call. With a valid
  verdict the next event is the fingerprint backup, before any mutating call; when the
  backup fails the call raises and no mutating call is made, and when it succeeds the call
  returns the map of results.
\<close>

theorem apply_validates_then_backs_up:
  "(\<not> valid (validate_fingerprint_changes p e ch) \<longrightarrow>
      apply_fingerprint_changes p e ch = (Inl OperationError, [Validated])) \<and>
   (valid (validate_fingerprint_changes p e ch) \<longrightarrow>
      (\<exists>rest. snd (apply_fingerprint_changes p e ch) = Validated # BackupFingerprint # rest) \<and>
      (\<forall>x. backup_current_fingerprint e = Inl x \<longrightarrow>
         apply_fingerprint_changes p e ch =
           (Inl OperationError, [Validated, BackupFingerprint])) \<and>
      (\<forall>b. backup_current_fingerprint e = Inr b \<longrightarrow>
         (\<exists>results. fst (apply_fingerprint_changes p e ch) = Inr results)))"
proof (cases "valid (validate_fingerprint_changes p e ch)")
  case False
  then show ?thesis by (simp add: apply_invalid)
next
  case True
  show ?thesis
  proof (cases "backup_current_fingerprint e")
    case (Inl x)
    with True show ?thesis by (simp add: apply_backup_fails)
  next
    case (Inr b)
    with True show ?thesis by (simp add: apply_backup_succeeds)
  qed
qed

lemma sample_uuid_accepts:
  "sample_uuid_UUID ''12345678-1234-1234-1234-123456789abc'' = None"
  by (simp add: sample_uuid_UUID_def str_remove_def is_hex_def)

lemma sample_apply_changes_valid:
  "valid (validate_fingerprint_changes Windows (sample_env True) sample_apply_changes)"
  by (simp add: validate_fingerprint_changes_def validate_windows_def sample_apply_changes_def
      sample_env_def sample_adapter_def mac_rule_def mac_rule_step_def guid_rule_windows_def
      volume_rule_windows_def initial_result_def add_warning_def sample_uuid_accepts
      validate_mac_address_sample)

lemma sample_apply_changes_valid_backup_fails:
  "valid (validate_fingerprint_changes Windows sample_env_backup_fails sample_apply_changes)"
  by (simp add: validate_fingerprint_changes_def validate_windows_def sample_apply_changes_def
      sample_env_backup_fails_def
      sample_env_def sample_adapter_def mac_rule_def mac_rule_step_def guid_rule_windows_def
      volume_rule_windows_def initial_result_def add_warning_def sample_uuid_accepts
      validate_mac_address_sample)

lemma sample_changes_invalid:
  "\<not> valid (validate_fingerprint_changes Windows (sample_env True) sample_changes)"
  by (simp add: validate_fingerprint_changes_def validate_windows_def sample_changes_def
      sample_env_def guid_rule_windows_def volume_rule_windows_def add_error_def
      sample_uuid_UUID_def str_remove_def split: sum.splits)

text \<open>
  On Windows: the invalid sample change-set; a valid change-set on a machine where the
  backup succeeds; the same change-set where the backup fails.
\<close>

theorem apply_validates_then_backs_up_witness:
  "apply_fingerprint_changes Windows (sample_env True) sample_changes =
     (Inl OperationError, [Validated]) \<and>
   apply_fingerprint_changes Windows (sample_env True) sample_apply_changes =
     (Inr [(''mac_en0'', True), (''machine_guid'', True)],
      [Validated, BackupFingerprint,
       CheckAdmin, CheckPermission ''modify_mac_address'',
       NetworkManagerModifyMac ''en0'' ''00:11:22:33:44:55'',
       CheckAdmin, CheckPermission ''modify_machine_guid'',
       WmiModifyGuid (Some ''12345678-1234-1234-1234-123456789abc'')]) \<and>
   apply_fingerprint_changes Windows sample_env_backup_fails sample_apply_changes =
     (Inl OperationError, [Validated, BackupFingerprint])"
proof -
  have b: "backup_current_fingerprint sample_env_backup_fails = Inl OperationError"
    by (simp add: sample_env_backup_fails_def)
  have run: "apply_fingerprint_changes Windows (sample_env True) sample_apply_changes =
     (Inr [(''mac_en0'', True), (''machine_guid'', True)],
      [Validated, BackupFingerprint,
       CheckAdmin, CheckPermission ''modify_mac_address'',
       NetworkManagerModifyMac ''en0'' ''00:11:22:33:44:55'',
       CheckAdmin, CheckPermission ''modify_machine_guid'',
       WmiModifyGuid (Some ''12345678-1234-1234-1234-123456789abc'')])"
  proof -
    have ab: "apply_after_backup Windows (sample_env True) sample_apply_changes =
      ([(''mac_en0'', True), (''machine_guid'', True)],
       [CheckAdmin, CheckPermission ''modify_mac_address'',
        NetworkManagerModifyMac ''en0'' ''00:11:22:33:44:55'',
        CheckAdmin, CheckPermission ''modify_machine_guid'',
        WmiModifyGuid (Some ''12345678-1234-1234-1234-123456789abc'')])"
      by (simp add: apply_after_backup_def sample_apply_changes_def sample_env_def
          engine_call_def success_of_def wrap_OperationError_def)
    have bk: "backup_current_fingerprint (sample_env True) = Inr ''fingerprint_20240101T120000''"
      by (simp add: sample_env_def)
    from apply_backup_succeeds [OF sample_apply_changes_valid bk] ab show ?thesis by simp
  qed
  from apply_validates_then_backs_up [of Windows "sample_env True" sample_changes]
       apply_validates_then_backs_up [of Windows sample_env_backup_fails sample_apply_changes]
       apply_validates_then_backs_up [of Windows "sample_env True" sample_apply_changes]
  show ?thesis
    using sample_changes_invalid sample_apply_changes_valid_backup_fails b run by blast
qed

section \<open>Deleting a backup that does not exist\<close>



section \<open>Adapters reported on macOS\<close>

lemma get_ifconfig_adapters_has_mac:
  "a \<in> set (get_ifconfig_adapters r) \<Longrightarrow> has_mac a"
  by (auto simp: get_ifconfig_adapters_def split: cmd_result.splits if_splits prod.splits)

lemma build_adapter_modifiable:
  "has_mac a \<Longrightarrow> mac_address (build_adapter a info) \<noteq> [] \<and> can_modify (build_adapter a info)"
  by (auto simp: has_mac_def build_adapter_def split: option.splits)

lemma merge_adapters_modifiable:
  "merge_adapters ns as = Inr adapters \<Longrightarrow> \<forall>a \<in> set as. has_mac a \<Longrightarrow>
     \<forall>b \<in> set adapters. mac_address b \<noteq> [] \<and> can_modify b"
proof (induction as arbitrary: adapters)
  case Nil
  then show ?case by simp
next
  case (Cons a as)
  from Cons.prems(1) obtain info rest where
    info: "find (matches_ns a) ns = Some info" and
    rest: "merge_adapters ns as = Inr rest" and
    adapters: "adapters = build_adapter a info # rest"
    by (auto split: option.splits sum.splits)
  from Cons.IH [OF rest] Cons.prems(2)
  have "\<forall>b \<in> set rest. mac_address b \<noteq> [] \<and> can_modify b" by simp
  moreover have "mac_address (build_adapter a info) \<noteq> [] \<and> can_modify (build_adapter a info)"
    using Cons.prems(2) by (intro build_adapter_modifiable) simp
  ultimately show ?case unfolding adapters by simp
qed

text \<open>
  Claim C10. Whenever \<open>get_network_adapters\<close> returns on macOS, every adapter in the
  returned list has a non-empty MAC address and has \<open>can_modify\<close> set: interfaces without
  a MAC address are removed before the merge, and \<open>can_modify\<close> is computed from the
  presence of the MAC address alone.
\<close>

theorem macos_adapters_modifiable:
  "get_network_adapters_macos ifconfig_result networksetup_result = Inr adapters \<Longrightarrow>
     \<forall>a \<in> set adapters. mac_address a \<noteq> [] \<and> can_modify a"
  unfolding get_network_adapters_macos_def
  by (erule merge_adapters_modifiable) (simp add: get_ifconfig_adapters_has_mac)

lemma sample_adapters_run:
  "get_network_adapters_macos sample_ifconfig sample_networksetup = Inr [sample_en0]"
  by code_simp

text \<open>The sample outputs: the loopback interface is dropped, and \<open>en0\<close> is reported with
  its MAC address and \<open>can_modify\<close> set.\<close>

theorem macos_adapters_modifiable_witness:
  "get_network_adapters_macos sample_ifconfig sample_networksetup = Inr [sample_en0] \<and>
   mac_address sample_en0 \<noteq> [] \<and> can_modify sample_en0"
  using macos_adapters_modifiable [OF sample_adapters_run] sample_adapters_run by simp

section \<open>Malformed lines in the audit log\<close>

lemma sample_line_history: "history_line sample_log_env (Some sample_line) = Rec sample_record"
  by (simp add: history_line_def parse_timestamp_def make_record_def obj_get_def
      sample_log_env_def sample_line_def sample_record_def)

lemma sample_line_search:
  "search_line sample_log_env [] None None (Some sample_line) = Rec sample_record"
  by (simp add: search_line_def parse_timestamp_def make_record_def obj_get_def
      sample_log_env_def sample_line_def sample_record_def)

lemma unparsable_line_skipped:
  "history_line e None = Skip"
  "search_line e query start_time end_time None = Skip"
  by (simp_all add: history_line_def search_line_def)

lemma array_line_aborts:
  "history_line e (Some (JArr xs)) = Abort AttributeError"
  "search_line e query start_time end_time (Some (JArr xs)) = Abort AttributeError"
  by (simp_all add: history_line_def search_line_def)

lemma bad_timestamp_aborts:
  "history_line sample_log_env (Some sample_bad_timestamp_line) = Abort ValueError"
  "search_line sample_log_env [] None None (Some sample_bad_timestamp_line) = Abort ValueError"
  by (simp_all add: history_line_def search_line_def parse_timestamp_def obj_get_def
      sample_log_env_def sample_bad_timestamp_line_def)

text \<open>
  Claim C8 on the code. Neither read path raises, and a line that is not JSON or that lacks
  a key is skipped: next to an unparsable line the well-formed record is returned. But a
  line that parses to something other than an object (here \<open>[]\<close>), or a record whose
  timestamp is not ISO 8601, raises an exception that the handler inside the loop does not
  catch; the outer handler then returns the empty list, and the record of the well-formed
  line is lost, in \<open>get_operation_history\<close> and in \<open>search_logs\<close> alike.
\<close>

theorem malformed_line_loses_records:
  "get_operation_history sample_log_env (Lines [Some sample_line, None]) 100 = [sample_record] \<and>
   search_logs sample_log_env (Lines [Some sample_line, None]) [] None None = [sample_record] \<and>
   get_operation_history sample_log_env (Lines [Some sample_line, Some (JArr [])]) 100 = [] \<and>
   search_logs sample_log_env (Lines [Some sample_line, Some (JArr [])]) [] None None = [] \<and>
   get_operation_history sample_log_env
     (Lines [Some sample_line, Some sample_bad_timestamp_line]) 100 = [] \<and>
   search_logs sample_log_env
     (Lines [Some sample_line, Some sample_bad_timestamp_line]) [] None None = []"
  by (simp add: get_operation_history_def search_logs_def last_lines_def
      sample_line_history sample_line_search array_line_aborts bad_timestamp_aborts
      unparsable_line_skipped)

end
